theory Spec2Isabelle
  imports Main
begin

text \<open>
  Two of the repository's serverless handlers and what the specification says of them:
  the sync relay of \<open>api/tenantsync.js\<close> (upload of packages inline or in chunks,
  completion, download, the API key) and the usage limit of
  \<open>api/generate-flow-protected.js\<close>. A handler is a function from the state of the
  database and a request to an answer and the new state. Each call runs alone: the SQL
  statements of two calls do not interleave.
\<close>

section \<open>JavaScript values\<close>

text \<open>
  The handlers read their input from JSON request bodies and query strings, and decide
  with JavaScript truthiness and strict equality. A value of a request is a \<open>jsval\<close>.
  \<open>JNum n\<close> is the number whose value is the integer \<open>n\<close>; numbers with a fraction
  are not part of the model. \<open>JObj\<close> holds the own properties of an object, one pair
  per name.
\<close>

datatype jsval =
    JUndefined
  | JNull
  | JBool bool
  | JNum int
  | JStr string
  | JArr "jsval list"
  | JObj "(string \<times> jsval) list"

text \<open>Truthiness, as \<open>!x\<close>, \<open>x || y\<close> and \<open>x ? a : b\<close> read it.\<close>

fun truthy :: "jsval \<Rightarrow> bool" where
  "truthy JUndefined = False"
| "truthy JNull = False"
| "truthy (JBool b) = b"
| "truthy (JNum n) = (n \<noteq> 0)"
| "truthy (JStr s) = (s \<noteq> [])"
| "truthy (JArr xs) = True"
| "truthy (JObj kvs) = True"

fun nullish :: "jsval \<Rightarrow> bool" where
  "nullish JUndefined = True"
| "nullish JNull = True"
| "nullish v = False"

text \<open>
  The property read \<open>v.k\<close> for the fixed names the handlers use (\<open>queue_id\<close>,
  \<open>chunk_index\<close>, \<open>length\<close>, ...), none of which is inherited from a prototype.
  Reading a property of \<open>undefined\<close> or \<open>null\<close> throws; the callers test
  \<open>nullish\<close> first.
\<close>

fun js_get :: "jsval \<Rightarrow> string \<Rightarrow> jsval" where
  "js_get (JObj kvs) k = (case map_of kvs k of Some v \<Rightarrow> v | None \<Rightarrow> JUndefined)"
| "js_get (JArr xs) k = (if k = ''length'' then JNum (int (length xs)) else JUndefined)"
| "js_get (JStr s) k = (if k = ''length'' then JNum (int (length s)) else JUndefined)"
| "js_get v k = JUndefined"

text \<open>\<open>a || b\<close> and the optional chain \<open>v?.k\<close>.\<close>

definition js_or :: "jsval \<Rightarrow> jsval \<Rightarrow> jsval" where
  "js_or a b = (if truthy a then a else b)"

definition js_opt_get :: "jsval \<Rightarrow> string \<Rightarrow> jsval" where
  "js_opt_get v k = (if nullish v then JUndefined else js_get v k)"

section \<open>The relay's tables (api/tenantsync.js)\<close>

text \<open>
  Rows carry the columns the handlers below read or write. Identifiers are UUIDs in
  their canonical text. \<open>ts_package_chunks\<close> is declared in
  \<open>handleSetupChunksTable\<close> with \<open>UNIQUE(queue_id, chunk_index)\<close>; the four package
  columns of \<open>ts_sync_queue\<close> are added there too, \<open>total_chunks\<close> and
  \<open>chunks_received\<close> with default 0. A nullable column is an \<open>option\<close>.
\<close>

record customer =
  c_id :: string
  api_key_hash :: string
  subscription_status :: string

record sync_pair =
  p_id :: string
  p_customer_id :: string

record queue_entry =
  q_id :: string
  customer_id :: string
  sync_pair_id :: string
  direction :: string
  manifest :: jsval
  status :: string
  package_data :: "string option"
  package_size_bytes :: "int option"
  total_chunks :: "int option"
  chunks_received :: "int option"
  created_at :: nat
  processing_completed_at :: "nat option"

record chunk =
  queue_id :: string
  chunk_index :: int
  chunk_data :: string

record usage_row =
  um_customer_id :: string
  um_date :: nat
  syncs_initiated :: "int option"

record audit_row =
  al_customer_id :: string
  al_sync_pair_id :: "string option"
  al_action :: string
  al_details :: jsval

record db =
  ts_customers :: "customer list"
  ts_sync_pairs :: "sync_pair list"
  ts_sync_queue :: "queue_entry list"
  ts_package_chunks :: "chunk list"
  ts_usage_metrics :: "usage_row list"
  ts_audit_log :: "audit_row list"

text \<open>
  What a call takes from outside the repository: the database's reading of a text
  parameter as INTEGER, BIGINT and UUID (\<open>None\<close>: the statement raises), the driver's
  text for a parameter that is not a string, SHA-256 in hex, the UUID the database
  draws for a new row, and the clock (\<open>NOW()\<close>, \<open>CURRENT_DATE\<close>).
\<close>

record env =
  int4in :: "string \<Rightarrow> int option"
  int8in :: "string \<Rightarrow> int option"
  uuidin :: "string \<Rightarrow> string option"
  textout :: "jsval \<Rightarrow> string"
  sha256_hex :: "string \<Rightarrow> string"
  new_uuid :: string
  now :: nat
  today :: nat

definition pg_text :: "env \<Rightarrow> jsval \<Rightarrow> string" where
  "pg_text e v = (case v of JStr s \<Rightarrow> s | _ \<Rightarrow> textout e v)"

definition pg_uuid :: "env \<Rightarrow> jsval \<Rightarrow> string option" where
  "pg_uuid e v = uuidin e (pg_text e v)"

definition pg_int4 :: "env \<Rightarrow> jsval \<Rightarrow> int option" where
  "pg_int4 e v =
     (case v of
        JNum n \<Rightarrow> if - 2147483648 \<le> n \<and> n \<le> 2147483647 then Some n else None
      | _ \<Rightarrow> int4in e (pg_text e v))"

text \<open>A BIGINT parameter; \<open>undefined\<close> and \<open>null\<close> are sent as NULL.\<close>

definition pg_int8 :: "env \<Rightarrow> jsval \<Rightarrow> int option option" where
  "pg_int8 e v =
     (case v of
        JUndefined \<Rightarrow> Some None
      | JNull \<Rightarrow> Some None
      | JNum n \<Rightarrow>
          if - 9223372036854775808 \<le> n \<and> n \<le> 9223372036854775807 then Some (Some n) else None
      | _ \<Rightarrow> map_option Some (int8in e (pg_text e v)))"

section \<open>Requests and replies\<close>

record request =
  req_method :: string
  query :: jsval
  body :: jsval
  x_api_key :: "string option"

text \<open>
  A handler answers with \<open>res.status(n).json(v)\<close> or \<open>res.status(n).end()\<close>, or it
  throws. \<open>handler\<close> catches what the others throw and answers 500 with the error's
  message (\<open>Caught\<close>).
\<close>

datatype failure =
    TypeError
  | InvalidUuid
  | InvalidInteger
  | NotNullViolation
  | UniqueViolation
  | InvalidJson
  | ValueTooLong
  | InvalidText
  | NumericOutOfRange

datatype reply =
    Json nat jsval
  | End nat
  | Threw failure
  | Caught failure

definition err :: "string \<Rightarrow> jsval" where
  "err msg = JObj [(''error'', JStr msg)]"


definition CHUNK_SIZE :: int where
  "CHUNK_SIZE = 3 * 1024 * 1024"

section \<open>The relay's handlers\<close>

subsection \<open>Helpers\<close>

definition validateApiKey :: "env \<Rightarrow> db \<Rightarrow> string \<Rightarrow> customer option" where
  "validateApiKey e d apiKey =
     (let hash = sha256_hex e apiKey;
          result = filter (\<lambda>c. api_key_hash c = hash
                      \<and> subscription_status c \<in> set [''active'', ''trial''])
                    (ts_customers d)
      in case result of [] \<Rightarrow> None | c # _ \<Rightarrow> Some c)"

definition logAudit :: "db \<Rightarrow> string \<Rightarrow> string option \<Rightarrow> string \<Rightarrow> jsval \<Rightarrow> db" where
  "logAudit d customerId syncPairId action details =
     d\<lparr>ts_audit_log := ts_audit_log d @
         [\<lparr>al_customer_id = customerId, al_sync_pair_id = syncPairId,
           al_action = action, al_details = details\<rparr>]\<rparr>"

text \<open>
  \<open>INSERT ... ON CONFLICT (queue_id, chunk_index) DO UPDATE SET chunk_data = ...\<close>: the
  row with the key is rewritten, or a new row is added.
\<close>

fun upsert_chunk :: "string \<Rightarrow> int \<Rightarrow> string \<Rightarrow> chunk list \<Rightarrow> chunk list" where
  "upsert_chunk q i d [] = [\<lparr>queue_id = q, chunk_index = i, chunk_data = d\<rparr>]"
| "upsert_chunk q i d (c # cs) =
     (if queue_id c = q \<and> chunk_index c = i then c\<lparr>chunk_data := d\<rparr> # cs
      else c # upsert_chunk q i d cs)"

text \<open>
  \<open>INSERT ... ON CONFLICT (customer_id, date) DO UPDATE SET syncs_initiated =
  syncs_initiated + 1\<close>.
\<close>

fun bump_usage :: "string \<Rightarrow> nat \<Rightarrow> usage_row list \<Rightarrow> usage_row list" where
  "bump_usage c t [] = [\<lparr>um_customer_id = c, um_date = t, syncs_initiated = Some 1\<rparr>]"
| "bump_usage c t (r # rs) =
     (if um_customer_id r = c \<and> um_date r = t
      then r\<lparr>syncs_initiated := map_option (\<lambda>n. n + 1) (syncs_initiated r)\<rparr> # rs
      else r # bump_usage c t rs)"

definition chunks_of :: "string \<Rightarrow> chunk list \<Rightarrow> chunk list" where
  "chunks_of q cs = filter (\<lambda>c. queue_id c = q) cs"

definition owned :: "string \<Rightarrow> string \<Rightarrow> queue_entry list \<Rightarrow> queue_entry list" where
  "owned q cust qs = filter (\<lambda>r. q_id r = q \<and> customer_id r = cust) qs"

text \<open>\<open>UPDATE ts_sync_queue SET ... WHERE id = q\<close>.\<close>

definition update_queue ::
  "string \<Rightarrow> (queue_entry \<Rightarrow> queue_entry) \<Rightarrow> db \<Rightarrow> db" where
  "update_queue q f d =
     d\<lparr>ts_sync_queue := map (\<lambda>r. if q_id r = q then f r else r) (ts_sync_queue d)\<rparr>"

definition js_int_opt :: "int option \<Rightarrow> jsval" where
  "js_int_opt n = (case n of None \<Rightarrow> JNull | Some k \<Rightarrow> JNum k)"

subsection \<open>UPLOAD: \<open>handleUpload\<close>\<close>

text \<open>
  The new row's \<open>id\<close> and \<open>created_at\<close> are column defaults of \<open>ts_sync_queue\<close>,
  whose declaration is not in the repository: the identifier is the one the database
  draws (a primary key, so a repeated one is refused) and \<open>created_at\<close> is the time of
  the insert. The row stores the manifest that \<open>JSON.stringify\<close> writes out, and the
  audit row the object that \<open>logAudit\<close> writes out.
\<close>

definition handleUpload :: "env \<Rightarrow> db \<Rightarrow> customer \<Rightarrow> request \<Rightarrow> reply \<times> db" where
  "handleUpload e d cust req =
     (if req_method req \<noteq> ''POST'' then (Json 405 (err ''POST required''), d)
      else if nullish (body req) then (Threw TypeError, d)
      else
        let pair_arg = js_get (body req) ''sync_pair_id'';
            manifest_arg = js_get (body req) ''manifest'';
            package_base64 = js_get (body req) ''package_base64''
        in
        if \<not> (truthy pair_arg \<and> truthy manifest_arg)
        then (Json 400 (err ''sync_pair_id and manifest required''), d)
        else
          case pg_uuid e pair_arg of
            None \<Rightarrow> (Threw InvalidUuid, d)
          | Some pid \<Rightarrow>
              if filter (\<lambda>p. p_id p = pid \<and> p_customer_id p = c_id cust) (ts_sync_pairs d) = []
              then (Json 404 (err ''Sync pair not found''), d)
              else
                let packageSize =
                      (if truthy package_base64 then js_get package_base64 ''length'' else JNum 0)
                in
                (case pg_int8 e packageSize of
                  None \<Rightarrow> (Threw InvalidInteger, d)
                | Some size_col \<Rightarrow>
                    if new_uuid e \<in> set (map q_id (ts_sync_queue d))
                    then (Threw UniqueViolation, d)
                    else
                      let st = (if truthy package_base64 then ''completed'' else ''pending'');
                          row = \<lparr>q_id = new_uuid e, customer_id = c_id cust,
                                 sync_pair_id = pid, direction = ''inbound'',
                                 manifest = manifest_arg, status = st,
                                 package_data =
                                   (if truthy package_base64
                                    then Some (pg_text e package_base64) else None),
                                 package_size_bytes = size_col,
                                 total_chunks = Some 0, chunks_received = Some 0,
                                 created_at = now e, processing_completed_at = None\<rparr>;
                          d1 = (d\<lparr>ts_sync_queue := ts_sync_queue d @ [row]\<rparr>);
                          d2 = (d1\<lparr>ts_usage_metrics :=
                                    bump_usage (c_id cust) (today e) (ts_usage_metrics d1)\<rparr>);
                          d3 = logAudit d2 (c_id cust) (Some pid) ''sync_upload_received''
                                 (JObj [(''queue_id'', JStr (new_uuid e)),
                                        (''has_package'', JBool (truthy package_base64)),
                                        (''package_size'', packageSize),
                                        (''flows'',
                                          js_or (js_opt_get (js_opt_get
                                                   (js_get manifest_arg ''components'')
                                                   ''flows'') ''length'') (JNum 0))])
                      in (Json 202
                            (JObj [(''success'', JBool True),
                                   (''queue_id'', JStr (new_uuid e)),
                                   (''status'', JStr st),
                                   (''has_package'', JBool (truthy package_base64)),
                                   (''message'', JStr
                                     (if truthy package_base64
                                      then ''Package stored successfully''
                                      else ''Manifest queued (use upload-chunk for large packages)''))]),
                          d3)))"

subsection \<open>UPLOAD-CHUNK: \<open>handleUploadChunk\<close>\<close>

definition handleUploadChunk :: "env \<Rightarrow> db \<Rightarrow> customer \<Rightarrow> request \<Rightarrow> reply \<times> db" where
  "handleUploadChunk e d cust req =
     (if req_method req \<noteq> ''POST'' then (Json 405 (err ''POST required''), d)
      else if nullish (body req) then (Threw TypeError, d)
      else
        let queue_arg = js_get (body req) ''queue_id'';
            index_arg = js_get (body req) ''chunk_index'';
            data_arg = js_get (body req) ''chunk_data'';
            total_arg = js_get (body req) ''total_chunks''
        in
        if \<not> (truthy queue_arg \<and> index_arg \<noteq> JUndefined \<and> truthy data_arg)
        then (Json 400 (err ''queue_id, chunk_index, chunk_data required''), d)
        else
          case pg_uuid e queue_arg of
            None \<Rightarrow> (Threw InvalidUuid, d)
          | Some q \<Rightarrow>
              if owned q (c_id cust) (ts_sync_queue d) = []
              then (Json 404 (err ''Queue entry not found''), d)
              else
                let announce = (truthy total_arg \<and> index_arg = JNum 0) in
                if announce \<and> pg_int4 e total_arg = None then (Threw InvalidInteger, d)
                else
                  let d1 = (if announce
                            then update_queue q
                                   (\<lambda>r. r\<lparr>total_chunks := pg_int4 e total_arg,
                                          status := ''processing''\<rparr>) d
                            else d)
                  in
                  if index_arg = JNull then (Threw NotNullViolation, d1)
                  else
                    (case pg_int4 e index_arg of
                      None \<Rightarrow> (Threw InvalidInteger, d1)
                    | Some i \<Rightarrow>
                        let d2 = (d1\<lparr>ts_package_chunks :=
                                     upsert_chunk q i (pg_text e data_arg) (ts_package_chunks d1)\<rparr>);
                            chunkCount = int (length (chunks_of q (ts_package_chunks d2)));
                            d3 = update_queue q (\<lambda>r. r\<lparr>chunks_received := Some chunkCount\<rparr>) d2
                        in (Json 200
                              (JObj [(''success'', JBool True),
                                     (''chunk_index'', index_arg),
                                     (''chunks_received'', JNum chunkCount),
                                     (''total_chunks'', js_or total_arg JNull)]),
                            d3)))"

subsection \<open>UPLOAD-COMPLETE: \<open>handleUploadComplete\<close>\<close>

definition handleUploadComplete :: "env \<Rightarrow> db \<Rightarrow> customer \<Rightarrow> request \<Rightarrow> reply \<times> db" where
  "handleUploadComplete e d cust req =
     (if req_method req \<noteq> ''POST'' then (Json 405 (err ''POST required''), d)
      else if nullish (body req) then (Threw TypeError, d)
      else
        let queue_arg = js_get (body req) ''queue_id'' in
        if \<not> truthy queue_arg then (Json 400 (err ''queue_id required''), d)
        else
          case pg_uuid e queue_arg of
            None \<Rightarrow> (Threw InvalidUuid, d)
          | Some q \<Rightarrow>
              (case owned q (c_id cust) (ts_sync_queue d) of
                 [] \<Rightarrow> (Json 404 (err ''Queue entry not found''), d)
               | q0 # _ \<Rightarrow>
                   let chunks = chunks_of q (ts_package_chunks d);
                       totalChunks = int (length chunks);
                       totalSize = sum_list (map (\<lambda>c. int (length (chunk_data c))) chunks);
                       d1 = update_queue q
                              (\<lambda>r. r\<lparr>status := ''completed'',
                                     total_chunks := Some totalChunks,
                                     chunks_received := Some totalChunks,
                                     package_size_bytes := Some totalSize,
                                     processing_completed_at := Some (now e)\<rparr>) d;
                       d2 = logAudit d1 (c_id cust) (Some (sync_pair_id q0))
                              ''chunked_upload_completed''
                              (JObj [(''queue_id'', queue_arg),
                                     (''total_chunks'', JNum totalChunks),
                                     (''total_size'', JNum totalSize)])
                   in (Json 200
                         (JObj [(''success'', JBool True),
                                (''queue_id'', queue_arg),
                                (''total_chunks'', JNum totalChunks),
                                (''total_size_bytes'', JNum totalSize),
                                (''status'', JStr ''completed'')]),
                       d2)))"

subsection \<open>DOWNLOAD: \<open>handleDownload\<close>\<close>

text \<open>
  \<open>ORDER BY created_at DESC LIMIT 1\<close>: a row with the greatest \<open>created_at\<close>. Among
  rows of equal time SQL may return any; the model takes the first in table order. In
  the answer a time and a BIGINT are carried as numbers (the driver hands them over as
  a date and as decimal text).
\<close>

fun latest :: "queue_entry list \<Rightarrow> queue_entry option" where
  "latest [] = None"
| "latest (r # rs) =
     (case latest rs of
        None \<Rightarrow> Some r
      | Some r' \<Rightarrow> if created_at r < created_at r' then Some r' else Some r)"

definition completed_inbound :: "string \<Rightarrow> string \<Rightarrow> queue_entry \<Rightarrow> bool" where
  "completed_inbound cust pid r =
     (customer_id r = cust \<and> sync_pair_id r = pid
      \<and> direction r = ''inbound'' \<and> status r = ''completed'')"

text \<open>The truthiness of the column \<open>package_data\<close> and the test \<open>total_chunks > 0\<close>.\<close>

definition has_inline :: "queue_entry \<Rightarrow> bool" where
  "has_inline r = (case package_data r of None \<Rightarrow> False | Some s \<Rightarrow> s \<noteq> [])"

definition has_chunk_count :: "queue_entry \<Rightarrow> bool" where
  "has_chunk_count r = (case total_chunks r of None \<Rightarrow> False | Some n \<Rightarrow> 0 < n)"

definition handleDownload :: "env \<Rightarrow> db \<Rightarrow> customer \<Rightarrow> request \<Rightarrow> reply \<times> db" where
  "handleDownload e d cust req =
     (let pair_arg = js_get (query req) ''sync_pair_id'' in
      if \<not> truthy pair_arg then (Json 400 (err ''sync_pair_id required''), d)
      else
        case pg_uuid e pair_arg of
          None \<Rightarrow> (Threw InvalidUuid, d)
        | Some pid \<Rightarrow>
            (case latest (filter (completed_inbound (c_id cust) pid) (ts_sync_queue d)) of
               None \<Rightarrow>
                 (Json 200 (JObj [(''available'', JBool False),
                                  (''message'', JStr ''No packages ready'')]), d)
             | Some pkg \<Rightarrow>
                 let isChunked = (has_chunk_count pkg \<and> \<not> has_inline pkg) in
                 if has_inline pkg
                 then (Json 200
                         (JObj [(''available'', JBool True),
                                (''transfer_mode'', JStr ''inline''),
                                (''package'',
                                  JObj [(''queue_id'', JStr (q_id pkg)),
                                        (''manifest'', manifest pkg),
                                        (''package_base64'', JStr (the (package_data pkg))),
                                        (''size_bytes'', js_int_opt (package_size_bytes pkg)),
                                        (''created_at'', JNum (int (created_at pkg)))])]), d)
                 else if isChunked
                 then (Json 200
                         (JObj [(''available'', JBool True),
                                (''transfer_mode'', JStr ''chunked''),
                                (''package'',
                                  JObj [(''queue_id'', JStr (q_id pkg)),
                                        (''manifest'', manifest pkg),
                                        (''total_chunks'', js_int_opt (total_chunks pkg)),
                                        (''size_bytes'', js_int_opt (package_size_bytes pkg)),
                                        (''created_at'', JNum (int (created_at pkg)))])]), d)
                 else (Json 200
                         (JObj [(''available'', JBool True),
                                (''transfer_mode'', JStr ''manifest_only''),
                                (''package'',
                                  JObj [(''queue_id'', JStr (q_id pkg)),
                                        (''manifest'', manifest pkg),
                                        (''created_at'', JNum (int (created_at pkg)))])]), d)))"

subsection \<open>The entry point: \<open>handler\<close>\<close>

text \<open>
  The routes whose handlers no statement below is about (\<open>register\<close>,
  \<open>setup-chunks-table\<close>, \<open>status\<close>, \<open>pairs\<close>, \<open>create-pair\<close>, \<open>download-chunk\<close>,
  \<open>conflicts\<close>, \<open>resolve\<close>, \<open>ledger\<close>, \<open>sync-complete\<close>) are the parameter
  \<open>other\<close>: the route's name, the customer where the route has one, and the call.
\<close>

type_synonym route = "string \<Rightarrow> customer option \<Rightarrow> env \<Rightarrow> db \<Rightarrow> request \<Rightarrow> reply \<times> db"

definition validActions :: "string list" where
  "validActions =
     [''register'', ''status'', ''pairs'', ''create-pair'',
      ''upload'', ''upload-chunk'', ''upload-complete'',
      ''download'', ''download-chunk'',
      ''conflicts'', ''resolve'', ''ledger'', ''sync-complete'']"

fun catch :: "reply \<times> db \<Rightarrow> reply \<times> db" where
  "catch (Threw f, d) = (Caught f, d)"
| "catch (r, d) = (r, d)"

definition dispatch :: "route \<Rightarrow> jsval \<Rightarrow> env \<Rightarrow> db \<Rightarrow> customer \<Rightarrow> request \<Rightarrow> reply \<times> db" where
  "dispatch other action e d cust req =
     (if action = JStr ''status'' then other ''status'' (Some cust) e d req
      else if action = JStr ''pairs'' then other ''pairs'' (Some cust) e d req
      else if action = JStr ''create-pair'' then other ''create-pair'' (Some cust) e d req
      else if action = JStr ''upload'' then handleUpload e d cust req
      else if action = JStr ''upload-chunk'' then handleUploadChunk e d cust req
      else if action = JStr ''upload-complete'' then handleUploadComplete e d cust req
      else if action = JStr ''download'' then handleDownload e d cust req
      else if action = JStr ''download-chunk'' then other ''download-chunk'' (Some cust) e d req
      else if action = JStr ''conflicts'' then other ''conflicts'' (Some cust) e d req
      else if action = JStr ''resolve'' then other ''resolve'' (Some cust) e d req
      else if action = JStr ''ledger'' then other ''ledger'' (Some cust) e d req
      else if action = JStr ''sync-complete'' then other ''sync-complete'' (Some cust) e d req
      else (Json 400 (JObj [(''error'', JStr ''Unknown action''),
                            (''validActions'', JArr (map JStr validActions))]), d))"

definition handler :: "route \<Rightarrow> env \<Rightarrow> db \<Rightarrow> request \<Rightarrow> reply \<times> db" where
  "handler other e d req =
     (if req_method req = ''OPTIONS'' then (End 200, d)
      else
        catch
          (let action = js_or (js_get (query req) ''action'') (js_opt_get (body req) ''action'') in
           if action = JStr ''register'' then other ''register'' None e d req
           else if action = JStr ''setup-chunks-table''
           then other ''setup-chunks-table'' None e d req
           else
             case x_api_key req of
               None \<Rightarrow> (Json 401 (err ''API key required''), d)
             | Some apiKey \<Rightarrow>
                 if apiKey = [] then (Json 401 (err ''API key required''), d)
                 else
                   (case validateApiKey e d apiKey of
                      None \<Rightarrow> (Json 401 (err ''Invalid API key''), d)
                    | Some cust \<Rightarrow> dispatch other action e d cust req)))"

section \<open>Flow generation with usage limits (api/generate-flow-protected.js)\<close>

record user_row =
  u_id :: string
  subscription_tier :: "string option"
  flows_generated_this_month :: "int option"
  total_flows_generated :: "int option"

record flow_row =
  f_user_id :: string
  flow_name :: string
  f_prompt :: string
  generated_json :: jsval
  tokens_used :: int
  generation_time_seconds :: jsval
  success :: bool

record usage_log =
  ul_user_id :: "string option"
  action_type :: string
  metadata :: jsval

text \<open>
  The state of this handler: its three tables, and the requests it has posted to the
  LLM provider (the prompt and the flow name that the message is built from).
\<close>

record app =
  users :: "user_row list"
  flows :: "flow_row list"
  usage_logs :: "usage_log list"
  llm_requests :: "(string \<times> jsval) list"

datatype llm_response =
    NetworkError
  | HttpError nat string
  | Ok jsval

text \<open>
  From outside the repository: the database's reading of a UUID, the driver's text for
  a parameter that is not a string, the environment variable, the provider's answer,
  \<open>JSON.parse\<close>, \<open>String.prototype.trim\<close> (it strips the white space and the
  line terminators of the language, of any code point, from both ends), decimal text of
  a number, the elapsed time in seconds, the text of an error, and the identifier the
  database draws for the new flow.
\<close>

record genv =
  g_uuidin :: "string \<Rightarrow> string option"
  g_textout :: "jsval \<Rightarrow> string"
  ANTHROPIC_API_KEY :: "string option"
  fetch :: "string \<Rightarrow> jsval \<Rightarrow> llm_response"
  json_parse :: "string \<Rightarrow> jsval option"
  js_trim :: "string \<Rightarrow> string"
  num_text :: "int \<Rightarrow> string"
  generationTime :: jsval
  error_message :: "failure \<Rightarrow> string"
  new_flow_id :: string

definition g_uuid :: "genv \<Rightarrow> jsval \<Rightarrow> string option" where
  "g_uuid g v = g_uuidin g (case v of JStr s \<Rightarrow> s | _ \<Rightarrow> g_textout g v)"

subsection \<open>The usage limit\<close>

text \<open>
  \<open>limits[user.subscription_tier] || 3\<close> reads a property of an object literal: one
  of its three own properties, or one that every object inherits from
  \<open>Object.prototype\<close> (eleven functions, and \<open>__proto__\<close>, which is
  \<open>Object.prototype\<close> itself: all truthy, none a number), or \<open>undefined\<close>.
  A NULL tier reads the property \<open>null\<close>.
\<close>

datatype limit_value =
    LNum int
  | LFunction
  | LPrototype

definition limits :: "(string \<times> int) list" where
  "limits = [(''free'', 3), (''pro'', 50), (''enterprise'', 999999)]"

definition object_prototype_names :: "string list" where
  "object_prototype_names =
     [''constructor'', ''__proto__'', ''hasOwnProperty'', ''isPrototypeOf'',
      ''propertyIsEnumerable'', ''toLocaleString'', ''toString'', ''valueOf'',
      ''__defineGetter__'', ''__defineSetter__'', ''__lookupGetter__'', ''__lookupSetter__'']"

definition tier_limit :: "string option \<Rightarrow> limit_value" where
  "tier_limit tier =
     (let k = (case tier of None \<Rightarrow> ''null'' | Some t \<Rightarrow> t) in
      case map_of limits k of
        Some n \<Rightarrow> LNum n
      | None \<Rightarrow> if k = ''__proto__'' then LPrototype
                else if k \<in> set object_prototype_names then LFunction
                else LNum 3)"

text \<open>
  \<open>limit - user.flows_generated_this_month\<close>; NULL counts as 0, and a function or an
  object gives NaN (\<open>None\<close>).
\<close>

definition remaining_of :: "limit_value \<Rightarrow> int option \<Rightarrow> int option" where
  "remaining_of limit used =
     (case limit of
        LNum l \<Rightarrow> Some (l - (case used of None \<Rightarrow> 0 | Some n \<Rightarrow> n))
      | _ \<Rightarrow> None)"

text \<open>\<open>remaining <= 0\<close>, false for NaN.\<close>

definition exhausted :: "int option \<Rightarrow> bool" where
  "exhausted remaining = (case remaining of None \<Rightarrow> False | Some r \<Rightarrow> r \<le> 0)"

text \<open>
  The limit in a JSON body: a function-valued property is left out, and
  \<open>Object.prototype\<close>, which has no enumerable property, is written \<open>{}\<close>.
  NaN in a JSON body is \<open>null\<close>.
\<close>

definition js_limit :: "limit_value \<Rightarrow> jsval" where
  "js_limit l = (case l of LNum n \<Rightarrow> JNum n | LFunction \<Rightarrow> JUndefined | LPrototype \<Rightarrow> JObj [])"

definition js_nan :: "int option \<Rightarrow> jsval" where
  "js_nan l = (case l of None \<Rightarrow> JNull | Some n \<Rightarrow> JNum n)"

definition js_str_opt :: "string option \<Rightarrow> jsval" where
  "js_str_opt t = (case t of None \<Rightarrow> JNull | Some v \<Rightarrow> JStr v)"

subsection \<open>Strings\<close>

text \<open>
  The cleaning of the provider's text: \<open>trim\<close>, then
  \<open>replace(/```json\n?/, '')\<close> or \<open>replace(/```\n?/, '')\<close> at the start, then
  \<open>replace(/```$/, '')\<close>, then \<open>trim\<close>.
\<close>

definition startsWith :: "string \<Rightarrow> string \<Rightarrow> bool" where
  "startsWith s p = (take (length p) s = p)"

definition fence :: string where
  "fence = replicate 3 (CHR 0x60)"

definition drop_newline :: "string \<Rightarrow> string" where
  "drop_newline s = (case s of [] \<Rightarrow> [] | c # r \<Rightarrow> if c = CHR 0x0A then r else s)"

definition drop_end_fence :: "string \<Rightarrow> string" where
  "drop_end_fence s =
     (if 3 \<le> length s \<and> drop (length s - 3) s = fence then take (length s - 3) s else s)"

definition cleanJson :: "genv \<Rightarrow> string \<Rightarrow> string" where
  "cleanJson g flowJson =
     (let c = js_trim g flowJson in
      if startsWith c (fence @ ''json'')
      then js_trim g (drop_end_fence (drop_newline (drop 7 c)))
      else if startsWith c fence
      then js_trim g (drop_end_fence (drop_newline (drop 3 c)))
      else c)"

text \<open>
  \<open>data.content.find(c => c.type === 'text')?.text\<close>; \<open>None\<close> where it throws
  (\<open>content\<close> is not an array, or an element before the match is \<open>null\<close>).
\<close>

fun find_text :: "jsval list \<Rightarrow> jsval option" where
  "find_text [] = Some JUndefined"
| "find_text (c # cs) =
     (if nullish c then None
      else if js_get c ''type'' = JStr ''text'' then Some (js_get c ''text'')
      else find_text cs)"

definition content_text :: "jsval \<Rightarrow> jsval option" where
  "content_text data =
     (if nullish data then None
      else case js_get data ''content'' of JArr cs \<Rightarrow> find_text cs | _ \<Rightarrow> None)"

subsection \<open>The JSONB columns\<close>

text \<open>
  What the database makes of the parameter for the JSONB column \<open>generated_json\<close>.
  The driver sends an object as its JSON text, a number or a boolean as its text, a
  string as it is, and an array as an array literal: \<open>{}\<close> for the empty array, which
  is the JSON text of the empty object, and for any other array a text in braces that is
  not JSON. The column takes a text that is JSON, and no text with the character
  U+0000 in it.
\<close>

primrec has_nul :: "jsval \<Rightarrow> bool" where
  "has_nul JUndefined = False"
| "has_nul JNull = False"
| "has_nul (JBool b) = False"
| "has_nul (JNum n) = False"
| "has_nul (JStr s) = (CHR 0x00 \<in> set s)"
| "has_nul (JArr vs) = list_ex (\<lambda>b. b) (map has_nul vs)"
| "has_nul (JObj kvs) =
     list_ex (\<lambda>kb. CHR 0x00 \<in> set (fst kb) \<or> snd kb) (map (map_prod (\<lambda>k. k) has_nul) kvs)"

definition jsonb_in :: "genv \<Rightarrow> jsval \<Rightarrow> jsval option" where
  "jsonb_in g v =
     (let stored = (case v of
                      JArr [] \<Rightarrow> Some (JObj [])
                    | JArr (x # xs) \<Rightarrow> None
                    | JStr s \<Rightarrow> json_parse g s
                    | _ \<Rightarrow> Some v)
      in case stored of
           None \<Rightarrow> None
         | Some w \<Rightarrow> if has_nul w then None else Some w)"

subsection \<open>The handler\<close>

text \<open>
  The connection to the database (\<open>createClient\<close>, \<open>connect\<close>, \<open>end\<close>) is taken
  to succeed. \<open>NetworkError\<close> stands for a call to the provider, or a reading of its
  body, that throws.

  The \<open>catch\<close> clause: it tries to insert a \<open>flow_generation_error\<close> row, gives up
  silently when that fails (no body, a prompt without \<open>substring\<close>, a user id that is
  not the id of a user, the character U+0000 in the metadata), and answers 500.
\<close>

definition log_error :: "genv \<Rightarrow> request \<Rightarrow> failure \<Rightarrow> app \<Rightarrow> app" where
  "log_error g req f a =
     (if nullish (body req) then a
      else
        let userId = js_get (body req) ''userId'';
            prompt = js_get (body req) ''prompt'';
            uid = (if nullish userId then Some None else map_option Some (g_uuid g userId));
            cut = (case prompt of
                     JUndefined \<Rightarrow> Some JUndefined
                   | JNull \<Rightarrow> Some JUndefined
                   | JStr s \<Rightarrow> Some (JStr (take 100 s))
                   | _ \<Rightarrow> None)
        in
        case cut of
          None \<Rightarrow> a
        | Some p \<Rightarrow>
            (case uid of
               None \<Rightarrow> a
             | Some u \<Rightarrow>
                 if (case u of None \<Rightarrow> True | Some i \<Rightarrow> i \<in> set (map u_id (users a)))
                    \<and> \<not> has_nul p \<and> CHR 0x00 \<notin> set (error_message g f)
                 then a\<lparr>usage_logs := usage_logs a @
                          [\<lparr>ul_user_id = u, action_type = ''flow_generation_error'',
                            metadata = JObj [(''error'', JStr (error_message g f)),
                                             (''prompt'', p)]\<rparr>]\<rparr>
                 else a))"

definition caught :: "genv \<Rightarrow> request \<Rightarrow> reply \<times> app \<Rightarrow> reply \<times> app" where
  "caught g req ra =
     (case fst ra of
        Threw f \<Rightarrow>
          (Json 500 (JObj [(''error'', JStr ''Internal server error''),
                           (''message'', JStr (error_message g f))]),
           log_error g req f (snd ra))
      | _ \<Rightarrow> ra)"

text \<open>
  After the limit check: the API key, the call to the provider, the parsing of its
  answer and the three writes, each committed on its own. The first write is refused
  when the flow name has more than 255 characters (\<open>VARCHAR(255)\<close>), when the name or
  the prompt has the character U+0000 in it, or when the JSONB column refuses the flow;
  the second when a counter is at the end of \<open>INTEGER\<close>. A refused write throws, and
  the \<open>catch\<close> clause answers.
\<close>

definition generate :: "genv \<Rightarrow> app \<Rightarrow> user_row \<Rightarrow> string \<Rightarrow> string \<Rightarrow> jsval \<Rightarrow> reply \<times> app" where
  "generate g a user uid prompt flowName =
     (let limit = tier_limit (subscription_tier user);
          remaining = remaining_of limit (flows_generated_this_month user)
      in
      case ANTHROPIC_API_KEY g of
        None \<Rightarrow> (Json 500 (err ''API key not configured''), a)
      | Some apiKey \<Rightarrow>
          if apiKey = [] then (Json 500 (err ''API key not configured''), a)
          else
            let a1 = (a\<lparr>llm_requests := llm_requests a @ [(prompt, flowName)]\<rparr>) in
            (case fetch g prompt flowName of
               NetworkError \<Rightarrow> (Threw TypeError, a1)
             | HttpError st errorData \<Rightarrow>
                 (Json st (JObj [(''error'', JStr (''Claude API error: '' @ num_text g (int st))),
                                 (''details'', JStr errorData)]), a1)
             | Ok data \<Rightarrow>
                 (case content_text data of
                    None \<Rightarrow> (Threw TypeError, a1)
                  | Some flowJson \<Rightarrow>
                      if \<not> truthy flowJson
                      then (Json 500 (err ''No flow JSON returned from Claude''), a1)
                      else
                        (case flowJson of
                           JStr txt \<Rightarrow>
                             (case json_parse g (cleanJson g txt) of
                                None \<Rightarrow>
                                  (Json 500
                                     (JObj [(''error'', JStr ''Invalid JSON returned from Claude''),
                                            (''rawResponse'', JStr (take 500 (cleanJson g txt)))]),
                                   a1)
                              | Some parsed \<Rightarrow>
                                  let tokensUsed = (int (length prompt) + int (length txt) + 3) div 4;
                                      name = (case js_or flowName (JStr ''Untitled Flow'') of
                                                JStr n \<Rightarrow> n | v \<Rightarrow> g_textout g v)
                                  in
                                  if 255 < length name then (Threw ValueTooLong, a1)
                                  else if CHR 0x00 \<in> set name \<or> CHR 0x00 \<in> set prompt
                                  then (Threw InvalidText, a1)
                                  else
                                  (case jsonb_in g parsed of
                                     None \<Rightarrow> (Threw InvalidJson, a1)
                                   | Some stored \<Rightarrow>
                                  let a2 = (a1\<lparr>flows := flows a1 @
                                              [\<lparr>f_user_id = uid,
                                                flow_name = name,
                                                f_prompt = prompt, generated_json = stored,
                                                tokens_used = tokensUsed,
                                                generation_time_seconds = generationTime g,
                                                success = True\<rparr>]\<rparr>);
                                      a3 = (a2\<lparr>users :=
                                              map (\<lambda>u. if u_id u = uid
                                                        then u\<lparr>flows_generated_this_month :=
                                                                 map_option (\<lambda>n. n + 1)
                                                                   (flows_generated_this_month u),
                                                               total_flows_generated :=
                                                                 map_option (\<lambda>n. n + 1)
                                                                   (total_flows_generated u)\<rparr>
                                                        else u)
                                                (users a2)\<rparr>);
                                      a4 = (a3\<lparr>usage_logs := usage_logs a3 @
                                              [\<lparr>ul_user_id = Some uid,
                                                action_type = ''flow_generated'',
                                                metadata =
                                                  JObj [(''flowId'', JStr (new_flow_id g)),
                                                        (''tokensUsed'', JNum tokensUsed),
                                                        (''generationTime'', generationTime g)]\<rparr>]\<rparr>)
                                  in
                                  if list_ex (\<lambda>u. u_id u = uid \<and>
                                                   (flows_generated_this_month u = Some 2147483647 \<or>
                                                    total_flows_generated u = Some 2147483647))
                                       (users a2)
                                  then (Threw NumericOutOfRange, a2)
                                  else
                                     (Json 200
                                        (JObj [(''success'', JBool True),
                                               (''flow'', parsed),
                                               (''rawJson'', JStr (cleanJson g txt)),
                                               (''usage'',
                                                 JObj [(''tier'', js_str_opt (subscription_tier user)),
                                                       (''limit'', js_limit limit),
                                                       (''used'',
                                                         JNum ((case flows_generated_this_month user of
                                                                  None \<Rightarrow> 0 | Some n \<Rightarrow> n) + 1)),
                                                       (''remaining'',
                                                         js_nan (map_option (\<lambda>r. r - 1) remaining))]),
                                               (''stats'',
                                                 JObj [(''tokensUsed'', JNum tokensUsed),
                                                       (''generationTime'', generationTime g)])]),
                                      a4)))
                         | _ \<Rightarrow> (Threw TypeError, a1)))))"

definition generate_flow_handler :: "genv \<Rightarrow> app \<Rightarrow> request \<Rightarrow> reply \<times> app" where
  "generate_flow_handler g a req =
     (if req_method req = ''OPTIONS'' then (End 200, a)
      else if req_method req \<noteq> ''POST'' then (Json 405 (err ''Method not allowed''), a)
      else
        caught g req
          (if nullish (body req) then (Threw TypeError, a)
           else
             let prompt = js_get (body req) ''prompt'';
                 flowName = js_get (body req) ''flowName'';
                 userId = js_get (body req) ''userId''
             in
             if \<not> truthy prompt then (Json 400 (err ''Prompt is required''), a)
             else
               (case prompt of
                  JStr p \<Rightarrow>
                    if js_trim g p = [] then (Json 400 (err ''Prompt is required''), a)
                    else if \<not> truthy userId then (Json 401 (err ''User ID required''), a)
                    else
                      (case g_uuid g userId of
                         None \<Rightarrow> (Threw InvalidUuid, a)
                       | Some uid \<Rightarrow>
                           (case filter (\<lambda>u. u_id u = uid) (users a) of
                              [] \<Rightarrow> (Json 404 (err ''User not found''), a)
                            | user # _ \<Rightarrow>
                                let limit = tier_limit (subscription_tier user);
                                    remaining =
                                      remaining_of limit (flows_generated_this_month user)
                                in
                                if exhausted remaining
                                then (Json 429
                                        (JObj [(''error'', JStr ''Usage limit exceeded''),
                                               (''limit'', js_limit limit),
                                               (''used'',
                                                 js_int_opt (flows_generated_this_month user)),
                                               (''tier'', js_str_opt (subscription_tier user)),
                                               (''upgradeRequired'', JBool True)]), a)
                                else generate g a user uid p flowName))
                | _ \<Rightarrow> (Threw TypeError, a))))"

section \<open>Notions used in the statements\<close>

subsection \<open>Chunk uploads\<close>


text \<open>
  \<open>total_chunks && chunk_index === 0\<close>, the three writes of an accepted
  \<open>upload-chunk\<close> call, and the conditions under which \<open>handleUploadChunk\<close> reaches
  them.
\<close>

definition announces :: "request \<Rightarrow> bool" where
  "announces req =
     (truthy (js_get (body req) ''total_chunks'') \<and> js_get (body req) ''chunk_index'' = JNum 0)"

definition chunk_writes :: "env \<Rightarrow> request \<Rightarrow> string \<Rightarrow> int \<Rightarrow> db \<Rightarrow> db" where
  "chunk_writes e req q i d =
     (let d1 = (if announces req
                then update_queue q
                       (\<lambda>r. r\<lparr>total_chunks := pg_int4 e (js_get (body req) ''total_chunks''),
                              status := ''processing''\<rparr>) d
                else d);
          d2 = (d1\<lparr>ts_package_chunks :=
                    upsert_chunk q i (pg_text e (js_get (body req) ''chunk_data''))
                      (ts_package_chunks d1)\<rparr>)
      in update_queue q
           (\<lambda>r. r\<lparr>chunks_received := Some (int (length (chunks_of q (ts_package_chunks d2))))\<rparr>) d2)"

definition chunk_accepted :: "env \<Rightarrow> db \<Rightarrow> customer \<Rightarrow> request \<Rightarrow> string \<Rightarrow> int \<Rightarrow> bool" where
  "chunk_accepted e d cust req q i =
     (req_method req = ''POST''
      \<and> truthy (js_get (body req) ''queue_id'')
      \<and> truthy (js_get (body req) ''chunk_data'')
      \<and> pg_uuid e (js_get (body req) ''queue_id'') = Some q
      \<and> owned q (c_id cust) (ts_sync_queue d) \<noteq> []
      \<and> (if announces req then pg_int4 e (js_get (body req) ''total_chunks'') \<noteq> None else True)
      \<and> js_get (body req) ''chunk_index'' \<noteq> JUndefined
      \<and> js_get (body req) ''chunk_index'' \<noteq> JNull
      \<and> pg_int4 e (js_get (body req) ''chunk_index'') = Some i)"

definition chunk_reply :: "request \<Rightarrow> int \<Rightarrow> jsval" where
  "chunk_reply req n =
     JObj [(''success'', JBool True),
           (''chunk_index'', js_get (body req) ''chunk_index''),
           (''chunks_received'', JNum n),
           (''total_chunks'', js_or (js_get (body req) ''total_chunks'') JNull)]"

text \<open>
  The aggregate that \<open>handleUploadComplete\<close> selects, \<open>COUNT(*)\<close> and
  \<open>SUM(LENGTH(chunk_data))\<close> over the rows of a queue id, and the row it writes.
\<close>

definition stored_count :: "string \<Rightarrow> db \<Rightarrow> int" where
  "stored_count q d = int (length (chunks_of q (ts_package_chunks d)))"

definition stored_size :: "string \<Rightarrow> db \<Rightarrow> int" where
  "stored_size q d =
     sum_list (map (\<lambda>c. int (length (chunk_data c))) (chunks_of q (ts_package_chunks d)))"

definition completed_row :: "env \<Rightarrow> string \<Rightarrow> db \<Rightarrow> queue_entry \<Rightarrow> queue_entry" where
  "completed_row e q d r =
     r\<lparr>status := ''completed'',
       total_chunks := Some (stored_count q d),
       chunks_received := Some (stored_count q d),
       package_size_bytes := Some (stored_size q d),
       processing_completed_at := Some (now e)\<rparr>"

subsection \<open>Uploads\<close>


subsection \<open>Sequences of operations\<close>

datatype op = Upload | UploadChunk | UploadComplete

type_synonym step = "op \<times> env \<times> customer \<times> request"

fun apply_step :: "db \<Rightarrow> step \<Rightarrow> db" where
  "apply_step d (Upload, e, cust, req) = snd (handleUpload e d cust req)"
| "apply_step d (UploadChunk, e, cust, req) = snd (handleUploadChunk e d cust req)"
| "apply_step d (UploadComplete, e, cust, req) = snd (handleUploadComplete e d cust req)"

fun run :: "db \<Rightarrow> step list \<Rightarrow> db" where
  "run d [] = d"
| "run d (s # ss) = run (apply_step d s) ss"

text \<open>
  An entry with both inline data and chunks (rows in \<open>ts_package_chunks\<close> or a
  positive \<open>total_chunks\<close>), and a state in which no completed entry is one.
\<close>

definition both_representations :: "db \<Rightarrow> queue_entry \<Rightarrow> bool" where
  "both_representations d r =
     (package_data r \<noteq> None
      \<and> (chunks_of (q_id r) (ts_package_chunks d) \<noteq> [] \<or> has_chunk_count r))"

definition exclusive :: "db \<Rightarrow> bool" where
  "exclusive d =
     list_all (\<lambda>r. \<not> (status r = ''completed'' \<and> both_representations d r)) (ts_sync_queue d)"

text \<open>
  What an operation may do to an entry that exists already: keep its identifier and
  its inline data, and keep its status or set it to \<open>processing\<close> or \<open>completed\<close>.
\<close>

definition kept :: "queue_entry \<Rightarrow> queue_entry \<Rightarrow> bool" where
  "kept r r' =
     (q_id r' = q_id r \<and> package_data r' = package_data r
      \<and> (status r' = status r \<or> status r' = ''processing'' \<or> status r' = ''completed''))"

definition evolves :: "queue_entry list \<Rightarrow> queue_entry list \<Rightarrow> bool" where
  "evolves qs qs' =
     (\<exists>G extra. qs' = map G qs @ extra \<and> (\<forall>r. kept r (G r))
        \<and> (\<forall>x \<in> set extra. q_id x \<notin> set (map q_id qs)))"

subsection \<open>The limit as the specification words it\<close>

text \<open>free: 3, pro: 50, enterprise: 999999, and 3 for a tier that is none of these.\<close>

definition claimed_limit :: "string option \<Rightarrow> int" where
  "claimed_limit tier =
     (if tier = Some ''free'' then 3
      else if tier = Some ''pro'' then 50
      else if tier = Some ''enterprise'' then 999999
      else 3)"

section \<open>Concrete states\<close>

definition env0 :: env where
  "env0 = \<lparr>int4in = (\<lambda>s. None), int8in = (\<lambda>s. None), uuidin = Some,
           textout = (\<lambda>v. []), sha256_hex = (\<lambda>k. ''sha256:'' @ k),
           new_uuid = ''q1'', now = 20, today = 3\<rparr>"

definition cust1 :: customer where
  "cust1 = \<lparr>c_id = ''c1'', api_key_hash = ''sha256:key1'', subscription_status = ''active''\<rparr>"

definition cust2 :: customer where
  "cust2 = \<lparr>c_id = ''c2'', api_key_hash = ''sha256:key2'', subscription_status = ''cancelled''\<rparr>"

definition db0 :: db where
  "db0 = \<lparr>ts_customers = [cust1, cust2],
          ts_sync_pairs = [\<lparr>p_id = ''p1'', p_customer_id = ''c1''\<rparr>],
          ts_sync_queue = [], ts_package_chunks = [],
          ts_usage_metrics = [], ts_audit_log = []\<rparr>"

definition entry1 :: queue_entry where
  "entry1 = \<lparr>q_id = ''q1'', customer_id = ''c1'', sync_pair_id = ''p1'',
             direction = ''inbound'', manifest = JObj [(''name'', JStr ''demo'')],
             status = ''processing'', package_data = None, package_size_bytes = Some 0,
             total_chunks = Some 9, chunks_received = Some 2,
             created_at = 10, processing_completed_at = None\<rparr>"

definition db1 :: db where
  "db1 = db0\<lparr>ts_sync_queue := [entry1],
              ts_package_chunks :=
                [\<lparr>queue_id = ''q1'', chunk_index = 0, chunk_data = ''QUJD''\<rparr>,
                 \<lparr>queue_id = ''q1'', chunk_index = 1, chunk_data = ''RA''\<rparr>]\<rparr>"

definition post :: "(string \<times> jsval) list \<Rightarrow> request" where
  "post kvs = \<lparr>req_method = ''POST'', query = JObj [], body = JObj kvs,
                  x_api_key = Some ''key1''\<rparr>"

definition upload_req :: "jsval \<Rightarrow> request" where
  "upload_req blob =
     post [(''sync_pair_id'', JStr ''p1''),
           (''manifest'', JObj [(''name'', JStr ''demo'')]),
           (''package_base64'', blob)]"

definition chunk_req :: "int \<Rightarrow> string \<Rightarrow> jsval \<Rightarrow> request" where
  "chunk_req i dat declared =
     post [(''queue_id'', JStr ''q1''), (''chunk_index'', JNum i),
           (''chunk_data'', JStr dat), (''total_chunks'', declared)]"

definition complete_req :: request where
  "complete_req = post [(''queue_id'', JStr ''q1'')]"

definition other0 :: route where
  "other0 name cust e d req = (Json 200 JNull, d)"

text \<open>
  A queue with two entries in progress, and chunk rows of both in
  \<open>ts_package_chunks\<close>.
\<close>

definition entry9 :: queue_entry where
  "entry9 = entry1\<lparr>q_id := ''q9'', total_chunks := Some 5, created_at := 11\<rparr>"

definition db3 :: db where
  "db3 = db0\<lparr>ts_sync_queue := [entry1, entry9],
              ts_package_chunks :=
                [\<lparr>queue_id = ''q1'', chunk_index = 0, chunk_data = ''QUJD''\<rparr>,
                 \<lparr>queue_id = ''q9'', chunk_index = 0, chunk_data = ''WFla''\<rparr>,
                 \<lparr>queue_id = ''q1'', chunk_index = 1, chunk_data = ''RA''\<rparr>,
                 \<lparr>queue_id = ''q9'', chunk_index = 1, chunk_data = ''WA''\<rparr>]\<rparr>"

text \<open>
  A queue for the downloads. Of the customer \<open>c1\<close> and the pair \<open>p1\<close>: a completed
  inline package (\<open>q2\<close>), a later completed chunked one (\<open>q3\<close>), and three entries
  created after both: one still in progress (\<open>q4\<close>), one of the customer \<open>c2\<close>
  (\<open>q5\<close>), one outbound (\<open>q6\<close>). Of the pair \<open>p2\<close>: a chunked package
  (\<open>q10\<close>) and a later one with inline data and a positive \<open>total_chunks\<close>
  (\<open>q7\<close>). Of the pair \<open>p3\<close>: a completed entry with neither (\<open>q8\<close>).
\<close>

definition entry2 :: queue_entry where
  "entry2 = entry1\<lparr>q_id := ''q2'', status := ''completed'', package_data := Some ''QUJD'',
                    package_size_bytes := Some 4, total_chunks := Some 0,
                    chunks_received := Some 0, created_at := 30\<rparr>"

definition entry3 :: queue_entry where
  "entry3 = entry1\<lparr>q_id := ''q3'', status := ''completed'', package_size_bytes := Some 6,
                    total_chunks := Some 2, chunks_received := Some 2, created_at := 40,
                    processing_completed_at := Some 41\<rparr>"

definition entry4 :: queue_entry where
  "entry4 = entry1\<lparr>q_id := ''q4'', created_at := 90\<rparr>"

definition entry5 :: queue_entry where
  "entry5 = entry2\<lparr>q_id := ''q5'', customer_id := ''c2'', created_at := 91\<rparr>"

definition entry6 :: queue_entry where
  "entry6 = entry2\<lparr>q_id := ''q6'', direction := ''outbound'', created_at := 92\<rparr>"

definition entry7 :: queue_entry where
  "entry7 = entry2\<lparr>q_id := ''q7'', sync_pair_id := ''p2'', total_chunks := Some 3,
                    created_at := 50\<rparr>"

definition entry10 :: queue_entry where
  "entry10 = entry3\<lparr>q_id := ''q10'', sync_pair_id := ''p2'', created_at := 45\<rparr>"

definition entry8 :: queue_entry where
  "entry8 = entry3\<lparr>q_id := ''q8'', sync_pair_id := ''p3'', total_chunks := Some 0,
                    chunks_received := Some 0, created_at := 60\<rparr>"

definition db4 :: db where
  "db4 = db0\<lparr>ts_sync_queue :=
                [entry2, entry5, entry3, entry6, entry4, entry7, entry10, entry8]\<rparr>"

definition download_of :: "string \<Rightarrow> request" where
  "download_of pid =
     \<lparr>req_method = ''GET'',
      query = JObj [(''action'', JStr ''download''), (''sync_pair_id'', JStr pid)],
      body = JUndefined, x_api_key = Some ''key1''\<rparr>"

text \<open>
  Three sequences of operations: an inline upload followed by a chunk for the new entry
  and the completion signal; an inline upload followed by chunk 0 with a declared
  total; a chunk for an entry without inline data and the completion signal.
\<close>

definition both_steps :: "step list" where
  "both_steps =
     [(Upload, env0, cust1, upload_req (JStr ''QUJD'')),
      (UploadChunk, env0, cust1, chunk_req 1 ''RUZH'' JUndefined),
      (UploadComplete, env0, cust1, complete_req)]"

definition regress_steps :: "step list" where
  "regress_steps =
     [(Upload, env0, cust1, upload_req (JStr ''QUJD'')),
      (UploadChunk, env0, cust1, chunk_req 0 ''RUZH'' (JNum 2))]"

definition chunk_steps :: "step list" where
  "chunk_steps =
     [(UploadChunk, env0, cust1, chunk_req 2 ''RUZH'' JUndefined),
      (UploadComplete, env0, cust1, complete_req)]"

text \<open>
  For the flow generation: what \<open>trim\<close> does to a text of ASCII characters (the
  texts used below are such), a provider that answers with the text \<open>{}\<close>, a user
  of the free tier who has used 3 flows, a user whose tier is named \<open>constructor\<close>,
  a user of the pro tier who has used 50 flows, and a user without a tier who has used 4.
\<close>

definition ascii_space :: "char \<Rightarrow> bool" where
  "ascii_space c = (c \<in> set [CHR 0x20, CHR 0x09, CHR 0x0A, CHR 0x0B, CHR 0x0C, CHR 0x0D])"

definition trim_ascii :: "string \<Rightarrow> string" where
  "trim_ascii s = rev (dropWhile ascii_space (rev (dropWhile ascii_space s)))"

definition genv0 :: genv where
  "genv0 = \<lparr>g_uuidin = Some, g_textout = (\<lambda>v. []),
            ANTHROPIC_API_KEY = Some ''sk-test'',
            fetch = (\<lambda>p n. Ok (JObj [(''content'',
                       JArr [JObj [(''type'', JStr ''text''), (''text'', JStr ''{}'')]])])),
            json_parse = (\<lambda>t. if t = ''{}'' then Some (JObj []) else None),
            js_trim = trim_ascii,
            num_text = (\<lambda>n. []), generationTime = JNum 1,
            error_message = (\<lambda>f. ''failed''), new_flow_id = ''f1''\<rparr>"

definition user1 :: user_row where
  "user1 = \<lparr>u_id = ''u1'', subscription_tier = Some ''free'',
            flows_generated_this_month = Some 3, total_flows_generated = Some 7\<rparr>"

definition user2 :: user_row where
  "user2 = \<lparr>u_id = ''u2'', subscription_tier = Some ''constructor'',
            flows_generated_this_month = Some 3, total_flows_generated = Some 3\<rparr>"

definition user3 :: user_row where
  "user3 = \<lparr>u_id = ''u3'', subscription_tier = Some ''pro'',
            flows_generated_this_month = Some 50, total_flows_generated = Some 80\<rparr>"

definition user4 :: user_row where
  "user4 = \<lparr>u_id = ''u4'', subscription_tier = None,
            flows_generated_this_month = Some 4, total_flows_generated = Some 4\<rparr>"

definition app0 :: app where
  "app0 = \<lparr>users = [user1, user2], flows = [], usage_logs = [], llm_requests = []\<rparr>"

definition app1 :: app where
  "app1 = \<lparr>users = [user3, user4, user1], flows = [], usage_logs = [], llm_requests = []\<rparr>"

definition gen_req :: "string \<Rightarrow> string \<Rightarrow> request" where
  "gen_req uid p =
     \<lparr>req_method = ''POST'', query = JObj [],
      body = JObj [(''prompt'', JStr p), (''userId'', JStr uid)], x_api_key = None\<rparr>"


section \<open>The chunked transfer\<close>

subsection \<open>Property reads and ownership\<close>

lemma truthy_get_not_nullish: "truthy (js_get v k) \<Longrightarrow> \<not> nullish v"
  by (cases v) auto

lemma owned_map:
  assumes "\<And>r. q_id (f r) = q_id r" "\<And>r. customer_id (f r) = customer_id r"
  shows "owned q c (map f qs) = map f (owned q c qs)"
  using assms by (induction qs) (auto simp: owned_def)

subsection \<open>The upsert\<close>







subsection \<open>\<open>handleUploadChunk\<close>\<close>

lemma handleUploadChunk_accepted:
  assumes "chunk_accepted e d cust req q i"
  shows "handleUploadChunk e d cust req =
           (Json 200
              (chunk_reply req
                 (int (length (chunks_of q (ts_package_chunks (chunk_writes e req q i d)))))),
            chunk_writes e req q i d)"
proof -
  from assms have nn: "\<not> nullish (body req)"
    by (auto simp: chunk_accepted_def dest: truthy_get_not_nullish)
  show ?thesis
    using assms nn
    by (auto simp: handleUploadChunk_def chunk_accepted_def chunk_writes_def announces_def
        chunk_reply_def Let_def update_queue_def split: if_splits)
qed

lemma handleUploadChunk_200:
  assumes "handleUploadChunk e d cust req = (Json 200 b, d')"
  shows "\<exists>q i. chunk_accepted e d cust req q i"
  using assms
  by (auto simp: handleUploadChunk_def chunk_accepted_def announces_def Let_def err_def
      split: if_splits option.splits)


lemma chunks_chunk_writes:
  "ts_package_chunks (chunk_writes e req q i d) =
     upsert_chunk q i (pg_text e (js_get (body req) ''chunk_data'')) (ts_package_chunks d)"
  by (simp add: chunk_writes_def Let_def update_queue_def)



subsection \<open>Upload of a chunk\<close>



subsection \<open>Completion\<close>

lemma handleUploadComplete_accepted:
  assumes "req_method req = ''POST''"
      and "truthy (js_get (body req) ''queue_id'')"
      and "pg_uuid e (js_get (body req) ''queue_id'') = Some q"
      and "owned q (c_id cust) (ts_sync_queue d) \<noteq> []"
  shows "\<exists>b d'. handleUploadComplete e d cust req = (Json 200 b, d')
           \<and> js_get b ''status'' = JStr ''completed''
           \<and> js_get b ''total_chunks'' = JNum (stored_count q d)
           \<and> js_get b ''total_size_bytes'' = JNum (stored_size q d)
           \<and> ts_sync_queue d'
               = map (\<lambda>r. if q_id r = q then completed_row e q d r else r) (ts_sync_queue d)
           \<and> ts_package_chunks d' = ts_package_chunks d"
proof -
  from assms(2) have nn: "\<not> nullish (body req)"
    by (rule truthy_get_not_nullish)
  from assms(4) obtain q0 rest where o: "owned q (c_id cust) (ts_sync_queue d) = q0 # rest"
    by (cases "owned q (c_id cust) (ts_sync_queue d)") auto
  show ?thesis
    using assms(1-3) nn o
    by (simp add: handleUploadComplete_def Let_def update_queue_def logAudit_def
        completed_row_def stored_count_def stored_size_def)
qed

lemma completed_row_fields:
  "q_id (completed_row e q d r) = q_id r"
  "customer_id (completed_row e q d r) = customer_id r"
  "package_data (completed_row e q d r) = package_data r"
  "status (completed_row e q d r) = ''completed''"
  "total_chunks (completed_row e q d r) = Some (stored_count q d)"
  "chunks_received (completed_row e q d r) = Some (stored_count q d)"
  "package_size_bytes (completed_row e q d r) = Some (stored_size q d)"
  by (simp_all add: completed_row_def)

lemma completed_row_declared:
  "completed_row e q d' (r\<lparr>total_chunks := t\<rparr>) = completed_row e q d' r"
  by (simp add: completed_row_def)

lemma handleUploadComplete_rows:
  assumes "req_method req = ''POST''"
      and "truthy (js_get (body req) ''queue_id'')"
      and "pg_uuid e (js_get (body req) ''queue_id'') = Some q"
      and "owned q (c_id cust) (ts_sync_queue d) \<noteq> []"
  shows "\<exists>b d'. handleUploadComplete e d cust req = (Json 200 b, d')
           \<and> js_get b ''status'' = JStr ''completed''
           \<and> js_get b ''total_chunks'' = JNum (stored_count q d)
           \<and> js_get b ''total_size_bytes'' = JNum (stored_size q d)
           \<and> ts_sync_queue d'
               = map (\<lambda>r. if q_id r = q then completed_row e q d r else r) (ts_sync_queue d)
           \<and> ts_package_chunks d' = ts_package_chunks d
           \<and> (\<exists>r \<in> set (ts_sync_queue d'). q_id r = q)
           \<and> (\<forall>r \<in> set (ts_sync_queue d'). q_id r = q \<longrightarrow>
                 status r = ''completed''
                 \<and> total_chunks r = Some (stored_count q d)
                 \<and> chunks_received r = Some (stored_count q d)
                 \<and> package_size_bytes r = Some (stored_size q d))
           \<and> (\<forall>t. ts_sync_queue
                     (snd (handleUploadComplete e
                            (update_queue q (\<lambda>r. r\<lparr>total_chunks := t r\<rparr>) d) cust req))
                   = ts_sync_queue d')"
proof -
  from handleUploadComplete_accepted[OF assms] obtain b d' where
    ok: "handleUploadComplete e d cust req = (Json 200 b, d')" and
    st: "js_get b ''status'' = JStr ''completed''"
        "js_get b ''total_chunks'' = JNum (stored_count q d)"
        "js_get b ''total_size_bytes'' = JNum (stored_size q d)" and
    qs: "ts_sync_queue d'
           = map (\<lambda>r. if q_id r = q then completed_row e q d r else r) (ts_sync_queue d)" and
    cs: "ts_package_chunks d' = ts_package_chunks d"
    by blast
  from assms(4) obtain r0 where r0: "r0 \<in> set (ts_sync_queue d)" "q_id r0 = q"
    by (auto simp: owned_def filter_empty_conv)
  have ex: "\<exists>r \<in> set (ts_sync_queue d'). q_id r = q"
    using r0 by (auto simp: qs completed_row_fields intro!: bexI[where x = "completed_row e q d r0"])
  have all: "\<forall>r \<in> set (ts_sync_queue d'). q_id r = q \<longrightarrow>
                 status r = ''completed''
                 \<and> total_chunks r = Some (stored_count q d)
                 \<and> chunks_received r = Some (stored_count q d)
                 \<and> package_size_bytes r = Some (stored_size q d)"
  proof (intro ballI impI)
    fix r assume r: "r \<in> set (ts_sync_queue d')" and rq: "q_id r = q"
    from r obtain x where x: "r = (if q_id x = q then completed_row e q d x else x)"
      unfolding qs set_map by blast
    have "q_id x = q"
      using rq x by (cases "q_id x = q") (simp_all add: completed_row_fields)
    with x have "r = completed_row e q d x"
      by simp
    then show "status r = ''completed''
                 \<and> total_chunks r = Some (stored_count q d)
                 \<and> chunks_received r = Some (stored_count q d)
                 \<and> package_size_bytes r = Some (stored_size q d)"
      by (simp add: completed_row_fields)
  qed
  have indep: "ts_sync_queue
                     (snd (handleUploadComplete e
                            (update_queue q (\<lambda>r. r\<lparr>total_chunks := t r\<rparr>) d) cust req))
                   = ts_sync_queue d'" for t
  proof -
    let ?d = "update_queue q (\<lambda>r. r\<lparr>total_chunks := t r\<rparr>) d"
    have o: "owned q (c_id cust) (ts_sync_queue ?d) \<noteq> []"
      using assms(4) by (simp add: update_queue_def owned_map)
    from handleUploadComplete_accepted[OF assms(1-3) o] obtain b2 d2 where
      ok2: "handleUploadComplete e ?d cust req = (Json 200 b2, d2)" and
      qs2: "ts_sync_queue d2
           = map (\<lambda>r. if q_id r = q then completed_row e q ?d r else r) (ts_sync_queue ?d)"
      by blast
    have same: "completed_row e q ?d = completed_row e q d"
      by (rule ext) (simp add: completed_row_def stored_count_def stored_size_def update_queue_def)
    have "ts_sync_queue (snd (handleUploadComplete e ?d cust req)) = ts_sync_queue d2"
      by (simp add: ok2)
    also have "\<dots> = map (\<lambda>r. if q_id r = q then completed_row e q d r else r)
                          (ts_sync_queue ?d)"
      by (simp add: qs2 same)
    also have "\<dots> = ts_sync_queue d'"
      by (auto simp: qs update_queue_def completed_row_declared)
    finally show ?thesis .
  qed
  show ?thesis
    using ok st qs cs ex all indep by blast
qed

text \<open>
  Claim C2. When the client signals completion for a queue entry (a POST to
  \<open>upload-complete\<close> whose \<open>queue_id\<close> is read as \<open>q\<close> and names an entry of the
  caller), the relay answers 200 with status \<open>completed\<close> and rewrites every row of
  that id: \<open>total_chunks\<close> and \<open>chunks_received\<close> become the number of the rows of
  \<open>ts_package_chunks\<close> whose \<open>queue_id\<close> is \<open>q\<close>, \<open>package_size_bytes\<close> the sum
  of the lengths of the data of those rows, and \<open>status\<close> becomes \<open>completed\<close>; the
  answer carries the same two numbers. Rows of another id and the chunk rows are left
  as they are. The \<open>total_chunks\<close> that an earlier \<open>upload-chunk\<close> declared plays no
  role: whatever the column holds in the rows of id \<open>q\<close> before the call, the queue
  after the call is the same.
\<close>

theorem upload_complete_aggregate:
  assumes "req_method req = ''POST''"
      and "truthy (js_get (body req) ''queue_id'')"
      and "pg_uuid e (js_get (body req) ''queue_id'') = Some q"
      and "\<exists>r \<in> set (ts_sync_queue d). q_id r = q \<and> customer_id r = c_id cust"
  shows "\<exists>b d'. handleUploadComplete e d cust req = (Json 200 b, d')
           \<and> js_get b ''status'' = JStr ''completed''
           \<and> js_get b ''total_chunks''
               = JNum (int (length (filter (\<lambda>c. queue_id c = q) (ts_package_chunks d))))
           \<and> js_get b ''total_size_bytes''
               = JNum (sum_list (map (\<lambda>c. int (length (chunk_data c)))
                                  (filter (\<lambda>c. queue_id c = q) (ts_package_chunks d))))
           \<and> ts_sync_queue d'
               = map (\<lambda>r. if q_id r = q
                          then r\<lparr>status := ''completed'',
                                 total_chunks :=
                                   Some (int (length (filter (\<lambda>c. queue_id c = q)
                                                        (ts_package_chunks d)))),
                                 chunks_received :=
                                   Some (int (length (filter (\<lambda>c. queue_id c = q)
                                                        (ts_package_chunks d)))),
                                 package_size_bytes :=
                                   Some (sum_list (map (\<lambda>c. int (length (chunk_data c)))
                                                    (filter (\<lambda>c. queue_id c = q)
                                                       (ts_package_chunks d)))),
                                 processing_completed_at := Some (now e)\<rparr>
                          else r)
                   (ts_sync_queue d)
           \<and> ts_package_chunks d' = ts_package_chunks d
           \<and> (\<exists>r \<in> set (ts_sync_queue d'). q_id r = q)
           \<and> (\<forall>r \<in> set (ts_sync_queue d'). q_id r = q \<longrightarrow>
                 status r = ''completed''
                 \<and> total_chunks r
                     = Some (int (length (filter (\<lambda>c. queue_id c = q) (ts_package_chunks d))))
                 \<and> chunks_received r
                     = Some (int (length (filter (\<lambda>c. queue_id c = q) (ts_package_chunks d))))
                 \<and> package_size_bytes r
                     = Some (sum_list (map (\<lambda>c. int (length (chunk_data c)))
                                        (filter (\<lambda>c. queue_id c = q) (ts_package_chunks d)))))
           \<and> (\<forall>t. ts_sync_queue
                     (snd (handleUploadComplete e
                            (d\<lparr>ts_sync_queue :=
                                 map (\<lambda>r. if q_id r = q then r\<lparr>total_chunks := t r\<rparr> else r)
                                   (ts_sync_queue d)\<rparr>)
                            cust req))
                   = ts_sync_queue d')"
proof -
  have o: "owned q (c_id cust) (ts_sync_queue d) \<noteq> []"
    using assms(4) by (auto simp: owned_def filter_empty_conv)
  have n: "stored_count q d
             = int (length (filter (\<lambda>c. queue_id c = q) (ts_package_chunks d)))"
    by (simp add: stored_count_def chunks_of_def)
  have s: "stored_size q d
             = sum_list (map (\<lambda>c. int (length (chunk_data c)))
                          (filter (\<lambda>c. queue_id c = q) (ts_package_chunks d)))"
    by (simp add: stored_size_def chunks_of_def)
  have row: "completed_row e q d
               = (\<lambda>r. r\<lparr>status := ''completed'',
                        total_chunks :=
                          Some (int (length (filter (\<lambda>c. queue_id c = q)
                                               (ts_package_chunks d)))),
                        chunks_received :=
                          Some (int (length (filter (\<lambda>c. queue_id c = q)
                                               (ts_package_chunks d)))),
                        package_size_bytes :=
                          Some (sum_list (map (\<lambda>c. int (length (chunk_data c)))
                                           (filter (\<lambda>c. queue_id c = q)
                                              (ts_package_chunks d)))),
                        processing_completed_at := Some (now e)\<rparr>)"
    by (rule ext) (simp add: completed_row_def n s)
  have upd: "update_queue q (\<lambda>r. r\<lparr>total_chunks := t r\<rparr>) d
               = d\<lparr>ts_sync_queue :=
                     map (\<lambda>r. if q_id r = q then r\<lparr>total_chunks := t r\<rparr> else r)
                       (ts_sync_queue d)\<rparr>" for t
    by (simp add: update_queue_def)
  from handleUploadComplete_rows[OF assms(1-3) o]
  show ?thesis
    unfolding row upd unfolding n s .
qed

theorem upload_complete_aggregate_witness:
  "req_method complete_req = ''POST''
   \<and> truthy (js_get (body complete_req) ''queue_id'')
   \<and> pg_uuid env0 (js_get (body complete_req) ''queue_id'') = Some ''q1''
   \<and> (\<exists>r \<in> set (ts_sync_queue db3). q_id r = ''q1'' \<and> customer_id r = c_id cust1)
   \<and> map queue_id (ts_package_chunks db3) = [''q1'', ''q9'', ''q1'', ''q9'']
   \<and> total_chunks entry1 = Some 9
   \<and> fst (handleUploadComplete env0 db3 cust1 complete_req)
       = Json 200 (JObj [(''success'', JBool True), (''queue_id'', JStr ''q1''),
                         (''total_chunks'', JNum 2), (''total_size_bytes'', JNum 6),
                         (''status'', JStr ''completed'')])
   \<and> ts_sync_queue (snd (handleUploadComplete env0 db3 cust1 complete_req))
       = [entry1\<lparr>status := ''completed'', total_chunks := Some 2, chunks_received := Some 2,
                 package_size_bytes := Some 6, processing_completed_at := Some 20\<rparr>,
          entry9]
   \<and> ts_package_chunks (snd (handleUploadComplete env0 db3 cust1 complete_req))
       = ts_package_chunks db3"
proof -
  have h1: "req_method complete_req = ''POST''"
    by (simp add: complete_req_def post_def)
  have h2: "truthy (js_get (body complete_req) ''queue_id'')"
    by (simp add: complete_req_def post_def)
  have h3: "pg_uuid env0 (js_get (body complete_req) ''queue_id'') = Some ''q1''"
    by (simp add: complete_req_def post_def pg_uuid_def pg_text_def env0_def)
  have h4: "\<exists>r \<in> set (ts_sync_queue db3). q_id r = ''q1'' \<and> customer_id r = c_id cust1"
    by (simp add: db3_def db0_def entry1_def cust1_def)
  have cs: "map queue_id (ts_package_chunks db3) = [''q1'', ''q9'', ''q1'', ''q9'']"
    by (simp add: db3_def)
  have rows: "filter (\<lambda>c. queue_id c = ''q1'') (ts_package_chunks db3)
                = [\<lparr>queue_id = ''q1'', chunk_index = 0, chunk_data = ''QUJD''\<rparr>,
                   \<lparr>queue_id = ''q1'', chunk_index = 1, chunk_data = ''RA''\<rparr>]"
    by (simp add: db3_def)
  have queue: "ts_sync_queue db3 = [entry1, entry9]"
    by (simp add: db3_def)
  have ids: "q_id entry1 = ''q1''" "q_id entry9 \<noteq> ''q1''"
    by (simp_all add: entry1_def entry9_def)
  have nw: "now env0 = 20"
    by (simp add: env0_def)
  from upload_complete_aggregate[OF h1 h2 h3 h4] obtain b d' where
    ok: "handleUploadComplete env0 db3 cust1 complete_req = (Json 200 b, d')" and
    st: "js_get b ''total_chunks''
           = JNum (int (length (filter (\<lambda>c. queue_id c = ''q1'') (ts_package_chunks db3))))"
        "js_get b ''total_size_bytes''
           = JNum (sum_list (map (\<lambda>c. int (length (chunk_data c)))
                              (filter (\<lambda>c. queue_id c = ''q1'') (ts_package_chunks db3))))" and
    qs: "ts_sync_queue d'
           = map (\<lambda>r. if q_id r = ''q1''
                      then r\<lparr>status := ''completed'',
                             total_chunks :=
                               Some (int (length (filter (\<lambda>c. queue_id c = ''q1'')
                                                    (ts_package_chunks db3)))),
                             chunks_received :=
                               Some (int (length (filter (\<lambda>c. queue_id c = ''q1'')
                                                    (ts_package_chunks db3)))),
                             package_size_bytes :=
                               Some (sum_list (map (\<lambda>c. int (length (chunk_data c)))
                                                (filter (\<lambda>c. queue_id c = ''q1'')
                                                   (ts_package_chunks db3)))),
                             processing_completed_at := Some (now env0)\<rparr>
                      else r)
               (ts_sync_queue db3)" and
    ch: "ts_package_chunks d' = ts_package_chunks db3"
    by blast
  have q': "ts_sync_queue (snd (handleUploadComplete env0 db3 cust1 complete_req))
       = [entry1\<lparr>status := ''completed'', total_chunks := Some 2, chunks_received := Some 2,
                 package_size_bytes := Some 6, processing_completed_at := Some 20\<rparr>,
          entry9]"
    by (simp add: ok qs rows queue ids nw)
  have c': "ts_package_chunks (snd (handleUploadComplete env0 db3 cust1 complete_req))
       = ts_package_chunks db3"
    by (simp add: ok ch)
  have n': "js_get b ''total_chunks'' = JNum 2" "js_get b ''total_size_bytes'' = JNum 6"
    using st by (simp_all add: rows)
  have b': "fst (handleUploadComplete env0 db3 cust1 complete_req)
       = Json 200 (JObj [(''success'', JBool True), (''queue_id'', JStr ''q1''),
                         (''total_chunks'', JNum 2), (''total_size_bytes'', JNum 6),
                         (''status'', JStr ''completed'')])"
    by (simp add: handleUploadComplete_def Let_def complete_req_def post_def pg_uuid_def
        pg_text_def env0_def owned_def db3_def db0_def entry1_def entry9_def cust1_def
        chunks_of_def)
  show ?thesis
    using h1 h2 h3 h4 cs q' c' b' by (simp add: entry1_def)
qed

section \<open>The inline upload\<close>










section \<open>Download\<close>

lemma latest_None: "(latest rs = None) = (rs = [])"
  by (induction rs) (auto split: option.splits)

lemma latest_Some:
  "latest rs = Some r \<Longrightarrow> r \<in> set rs \<and> (\<forall>x \<in> set rs. created_at x \<le> created_at r)"
proof (induction rs arbitrary: r)
  case Nil
  then show ?case by simp
next
  case (Cons a rs)
  show ?case
  proof (cases "latest rs")
    case None
    with Cons.prems show ?thesis by (simp add: latest_None)
  next
    case (Some m)
    from Cons.IH[OF Some] have m: "m \<in> set rs" "\<forall>x \<in> set rs. created_at x \<le> created_at m"
      by simp_all
    show ?thesis
    proof (cases "created_at a < created_at m")
      case True
      with Some Cons.prems have "r = m" by simp
      with m True show ?thesis by auto
    next
      case False
      with Some Cons.prems have "r = a" by simp
      with m False show ?thesis by fastforce
    qed
  qed
qed

lemma handleDownload_modes:
  assumes "truthy (js_get (query req) ''sync_pair_id'')"
      and "pg_uuid e (js_get (query req) ''sync_pair_id'') = Some pid"
      and "latest (filter (completed_inbound (c_id cust) pid) (ts_sync_queue d)) = Some pkg"
  shows "\<exists>b. handleDownload e d cust req = (Json 200 b, d)
           \<and> js_get b ''available'' = JBool True
           \<and> js_get b ''transfer_mode''
               = JStr (if has_inline pkg then ''inline''
                       else if has_chunk_count pkg then ''chunked''
                       else ''manifest_only'')
           \<and> js_get (js_get b ''package'') ''queue_id'' = JStr (q_id pkg)
           \<and> (has_inline pkg \<longrightarrow>
                 js_get (js_get b ''package'') ''package_base64''
                   = JStr (the (package_data pkg)))"
  using assms
  by (cases "has_inline pkg"; cases "has_chunk_count pkg")
     (simp_all add: handleDownload_def Let_def)

lemma has_inline_iff: "has_inline r = (\<exists>s. package_data r = Some s \<and> s \<noteq> [])"
  by (cases "package_data r") (simp_all add: has_inline_def)

lemma has_chunk_count_iff: "has_chunk_count r = (\<exists>n. total_chunks r = Some n \<and> 0 < n)"
  by (cases "total_chunks r") (simp_all add: has_chunk_count_def)

lemma handleDownload_selects:
  assumes "truthy (js_get (query req) ''sync_pair_id'')"
      and "pg_uuid e (js_get (query req) ''sync_pair_id'') = Some pid"
      and "filter (completed_inbound (c_id cust) pid) (ts_sync_queue d) \<noteq> []"
  shows "\<exists>b. handleDownload e d cust req = (Json 200 b, d)
           \<and> (\<exists>pkg \<in> set (ts_sync_queue d).
                 completed_inbound (c_id cust) pid pkg
                 \<and> (\<forall>r \<in> set (ts_sync_queue d).
                       completed_inbound (c_id cust) pid r \<longrightarrow> created_at r \<le> created_at pkg)
                 \<and> js_get b ''available'' = JBool True
                 \<and> js_get (js_get b ''package'') ''queue_id'' = JStr (q_id pkg)
                 \<and> js_get b ''transfer_mode''
                     = JStr (if has_inline pkg then ''inline''
                             else if has_chunk_count pkg then ''chunked''
                             else ''manifest_only'')
                 \<and> (has_inline pkg \<longrightarrow>
                       js_get (js_get b ''package'') ''package_base64''
                         = JStr (the (package_data pkg))))"
proof -
  from assms(3) obtain pkg where
    l: "latest (filter (completed_inbound (c_id cust) pid) (ts_sync_queue d)) = Some pkg"
    by (cases "latest (filter (completed_inbound (c_id cust) pid) (ts_sync_queue d))")
       (auto simp: latest_None)
  from latest_Some[OF l] have
    p: "pkg \<in> set (ts_sync_queue d)" "completed_inbound (c_id cust) pid pkg" and
    m: "\<forall>r \<in> set (ts_sync_queue d).
          completed_inbound (c_id cust) pid r \<longrightarrow> created_at r \<le> created_at pkg"
    by auto
  from handleDownload_modes[OF assms(1,2) l] obtain b where
    b: "handleDownload e d cust req = (Json 200 b, d)"
       "js_get b ''available'' = JBool True"
       "js_get b ''transfer_mode''
          = JStr (if has_inline pkg then ''inline''
                  else if has_chunk_count pkg then ''chunked''
                  else ''manifest_only'')"
       "js_get (js_get b ''package'') ''queue_id'' = JStr (q_id pkg)"
       "has_inline pkg \<longrightarrow>
          js_get (js_get b ''package'') ''package_base64'' = JStr (the (package_data pkg))"
    by blast
  show ?thesis
    using p m b by blast
qed

text \<open>
  Claim C4. For every download request with a \<open>sync_pair_id\<close> (read as the pair
  \<open>pid\<close>), the relay answers 200 and changes nothing. When no entry of the queue has
  the caller as its customer, \<open>pid\<close> as its pair, the direction \<open>inbound\<close> and the
  status \<open>completed\<close>, it reports \<open>available: false\<close>. Otherwise it selects an entry
  \<open>pkg\<close> of the queue that has these four values and that no other entry with these
  four values is created after; it reports that entry's id and its transfer mode, which
  is \<open>inline\<close> when the entry has inline data (\<open>package_data\<close> is truthy: not NULL
  and not the empty string, which \<open>handleUpload\<close> never stores for a string), and then
  the data is in the answer; \<open>chunked\<close> when it has none and \<open>total_chunks\<close> is
  positive; \<open>manifest_only\<close> when it has neither.
\<close>

theorem download_latest_and_mode:
  assumes "truthy (js_get (query req) ''sync_pair_id'')"
      and "pg_uuid e (js_get (query req) ''sync_pair_id'') = Some pid"
  shows "\<exists>b. handleDownload e d cust req = (Json 200 b, d)
           \<and> (if \<forall>r \<in> set (ts_sync_queue d).
                     \<not> (customer_id r = c_id cust \<and> sync_pair_id r = pid
                        \<and> direction r = ''inbound'' \<and> status r = ''completed'')
               then js_get b ''available'' = JBool False
               else \<exists>pkg \<in> set (ts_sync_queue d).
                      customer_id pkg = c_id cust \<and> sync_pair_id pkg = pid
                      \<and> direction pkg = ''inbound'' \<and> status pkg = ''completed''
                      \<and> (\<forall>r \<in> set (ts_sync_queue d).
                            customer_id r = c_id cust \<and> sync_pair_id r = pid
                            \<and> direction r = ''inbound'' \<and> status r = ''completed''
                            \<longrightarrow> created_at r \<le> created_at pkg)
                      \<and> js_get b ''available'' = JBool True
                      \<and> js_get (js_get b ''package'') ''queue_id'' = JStr (q_id pkg)
                      \<and> js_get b ''transfer_mode''
                          = JStr (if \<exists>s. package_data pkg = Some s \<and> s \<noteq> [] then ''inline''
                                  else if \<exists>n. total_chunks pkg = Some n \<and> 0 < n then ''chunked''
                                  else ''manifest_only'')
                      \<and> (\<forall>s. package_data pkg = Some s \<and> s \<noteq> [] \<longrightarrow>
                            js_get (js_get b ''package'') ''package_base64'' = JStr s))"
proof (cases "filter (completed_inbound (c_id cust) pid) (ts_sync_queue d) = []")
  case True
  then have none: "\<forall>r \<in> set (ts_sync_queue d).
                     \<not> (customer_id r = c_id cust \<and> sync_pair_id r = pid
                        \<and> direction r = ''inbound'' \<and> status r = ''completed'')"
    by (simp add: filter_empty_conv completed_inbound_def)
  from True have "latest (filter (completed_inbound (c_id cust) pid) (ts_sync_queue d)) = None"
    by (simp add: latest_None)
  with assms have "handleDownload e d cust req
                     = (Json 200 (JObj [(''available'', JBool False),
                                        (''message'', JStr ''No packages ready'')]), d)"
    by (simp add: handleDownload_def)
  with none show ?thesis
    by simp
next
  case False
  then have some: "\<not> (\<forall>r \<in> set (ts_sync_queue d).
                     \<not> (customer_id r = c_id cust \<and> sync_pair_id r = pid
                        \<and> direction r = ''inbound'' \<and> status r = ''completed''))"
    by (simp add: filter_empty_conv completed_inbound_def)
  from handleDownload_selects[OF assms False] obtain b pkg where
    b: "handleDownload e d cust req = (Json 200 b, d)" and
    p: "pkg \<in> set (ts_sync_queue d)" and
    c: "completed_inbound (c_id cust) pid pkg" and
    m: "\<forall>r \<in> set (ts_sync_queue d).
          completed_inbound (c_id cust) pid r \<longrightarrow> created_at r \<le> created_at pkg" and
    r: "js_get b ''available'' = JBool True"
       "js_get (js_get b ''package'') ''queue_id'' = JStr (q_id pkg)" and
    t: "js_get b ''transfer_mode''
          = JStr (if has_inline pkg then ''inline''
                  else if has_chunk_count pkg then ''chunked''
                  else ''manifest_only'')" and
    i: "has_inline pkg \<longrightarrow>
          js_get (js_get b ''package'') ''package_base64'' = JStr (the (package_data pkg))"
    by blast
  from c have c': "customer_id pkg = c_id cust \<and> sync_pair_id pkg = pid
                   \<and> direction pkg = ''inbound'' \<and> status pkg = ''completed''"
    by (simp add: completed_inbound_def)
  from m have m': "\<forall>r \<in> set (ts_sync_queue d).
                     customer_id r = c_id cust \<and> sync_pair_id r = pid
                     \<and> direction r = ''inbound'' \<and> status r = ''completed''
                     \<longrightarrow> created_at r \<le> created_at pkg"
    by (simp add: completed_inbound_def)
  from t have t': "js_get b ''transfer_mode''
          = JStr (if \<exists>s. package_data pkg = Some s \<and> s \<noteq> [] then ''inline''
                  else if \<exists>n. total_chunks pkg = Some n \<and> 0 < n then ''chunked''
                  else ''manifest_only'')"
    by (simp only: has_inline_iff has_chunk_count_iff)
  from i have i': "\<forall>s. package_data pkg = Some s \<and> s \<noteq> [] \<longrightarrow>
                     js_get (js_get b ''package'') ''package_base64'' = JStr s"
    by (auto simp: has_inline_iff)
  have X: "\<exists>pkg \<in> set (ts_sync_queue d).
          customer_id pkg = c_id cust \<and> sync_pair_id pkg = pid
          \<and> direction pkg = ''inbound'' \<and> status pkg = ''completed''
          \<and> (\<forall>r \<in> set (ts_sync_queue d).
                customer_id r = c_id cust \<and> sync_pair_id r = pid
                \<and> direction r = ''inbound'' \<and> status r = ''completed''
                \<longrightarrow> created_at r \<le> created_at pkg)
          \<and> js_get b ''available'' = JBool True
          \<and> js_get (js_get b ''package'') ''queue_id'' = JStr (q_id pkg)
          \<and> js_get b ''transfer_mode''
              = JStr (if \<exists>s. package_data pkg = Some s \<and> s \<noteq> [] then ''inline''
                      else if \<exists>n. total_chunks pkg = Some n \<and> 0 < n then ''chunked''
                      else ''manifest_only'')
          \<and> (\<forall>s. package_data pkg = Some s \<and> s \<noteq> [] \<longrightarrow>
                js_get (js_get b ''package'') ''package_base64'' = JStr s)"
    using p c' m' r t' i' by blast
  show ?thesis
    apply (rule exI[of _ b])
    apply (rule conjI)
     apply (rule b)
    apply (simp only: if_not_P[OF some])
    apply (rule X)
    done
qed

theorem download_latest_and_mode_witness:
  "(\<exists>b. handleDownload env0 db4 cust1 (download_of ''p1'') = (Json 200 b, db4)
        \<and> js_get b ''available'' = JBool True
        \<and> js_get (js_get b ''package'') ''queue_id'' = JStr ''q3''
        \<and> js_get b ''transfer_mode'' = JStr ''chunked'')
   \<and> (\<exists>b. handleDownload env0 db4 cust1 (download_of ''p2'') = (Json 200 b, db4)
        \<and> js_get b ''available'' = JBool True
        \<and> js_get (js_get b ''package'') ''queue_id'' = JStr ''q7''
        \<and> js_get b ''transfer_mode'' = JStr ''inline''
        \<and> js_get (js_get b ''package'') ''package_base64'' = JStr ''QUJD'')
   \<and> (\<exists>b. handleDownload env0 db4 cust1 (download_of ''p3'') = (Json 200 b, db4)
        \<and> js_get b ''available'' = JBool True
        \<and> js_get (js_get b ''package'') ''queue_id'' = JStr ''q8''
        \<and> js_get b ''transfer_mode'' = JStr ''manifest_only'')
   \<and> (\<exists>b. handleDownload env0 db4 cust1 (download_of ''p4'') = (Json 200 b, db4)
        \<and> js_get b ''available'' = JBool False)"
proof -
  have q: "ts_sync_queue db4
             = [entry2, entry5, entry3, entry6, entry4, entry7, entry10, entry8]"
    by (simp add: db4_def)
  have h1: "truthy (js_get (query (download_of (c # cs))) ''sync_pair_id'')" for c cs
    by (simp add: download_of_def)
  have h2: "pg_uuid env0 (js_get (query (download_of pid)) ''sync_pair_id'') = Some pid" for pid
    by (simp add: download_of_def pg_uuid_def pg_text_def env0_def)
  note entries = entry1_def entry2_def entry3_def entry4_def entry5_def entry6_def entry7_def
    entry8_def entry10_def cust1_def
  have p1: "\<exists>b. handleDownload env0 db4 cust1 (download_of ''p1'') = (Json 200 b, db4)
        \<and> js_get b ''available'' = JBool True
        \<and> js_get (js_get b ''package'') ''queue_id'' = JStr ''q3''
        \<and> js_get b ''transfer_mode'' = JStr ''chunked''"
    using download_latest_and_mode[where req = "download_of ''p1''" and pid = "''p1''"
        and e = env0 and d = db4 and cust = cust1, OF h1 h2]
    by (simp add: q entries)
  have p2: "\<exists>b. handleDownload env0 db4 cust1 (download_of ''p2'') = (Json 200 b, db4)
        \<and> js_get b ''available'' = JBool True
        \<and> js_get (js_get b ''package'') ''queue_id'' = JStr ''q7''
        \<and> js_get b ''transfer_mode'' = JStr ''inline''
        \<and> js_get (js_get b ''package'') ''package_base64'' = JStr ''QUJD''"
    using download_latest_and_mode[where req = "download_of ''p2''" and pid = "''p2''"
        and e = env0 and d = db4 and cust = cust1, OF h1 h2]
    by (simp add: q entries)
  have p3: "\<exists>b. handleDownload env0 db4 cust1 (download_of ''p3'') = (Json 200 b, db4)
        \<and> js_get b ''available'' = JBool True
        \<and> js_get (js_get b ''package'') ''queue_id'' = JStr ''q8''
        \<and> js_get b ''transfer_mode'' = JStr ''manifest_only''"
    using download_latest_and_mode[where req = "download_of ''p3''" and pid = "''p3''"
        and e = env0 and d = db4 and cust = cust1, OF h1 h2]
    by (simp add: q entries)
  have p4: "\<exists>b. handleDownload env0 db4 cust1 (download_of ''p4'') = (Json 200 b, db4)
        \<and> js_get b ''available'' = JBool False"
    using download_latest_and_mode[where req = "download_of ''p4''" and pid = "''p4''"
        and e = env0 and d = db4 and cust = cust1, OF h1 h2]
    by (simp add: q entries)
  from p1 p2 p3 p4 show ?thesis
    by blast
qed

section \<open>Chunk indices\<close>

lemma upsert_chunk_indices:
  "set (map chunk_index (upsert_chunk q i t cs)) = insert i (set (map chunk_index cs))"
  by (induction cs) auto

lemma upsert_chunk_member:
  "\<lparr>queue_id = q, chunk_index = i, chunk_data = t\<rparr> \<in> set (upsert_chunk q i t cs)"
proof (induction cs)
  case Nil
  then show ?case by simp
next
  case (Cons c cs)
  show ?case
  proof (cases "queue_id c = q \<and> chunk_index c = i")
    case True
    then have "c\<lparr>chunk_data := t\<rparr> = \<lparr>queue_id = q, chunk_index = i, chunk_data = t\<rparr>"
      by (cases c) simp
    with True show ?thesis by simp
  next
    case False
    with Cons show ?thesis by auto
  qed
qed

text \<open>
  Claim C8 says that every stored \<open>chunk_index\<close> is an integer greater than or equal
  to zero. \<open>handleUploadChunk\<close> only refuses a \<open>chunk_index\<close> that is \<open>undefined\<close>:
  a call with \<open>chunk_index\<close> -1 is answered 200 and its row is stored under -1.
\<close>

theorem negative_chunk_index_counterexample:
  "fst (handleUploadChunk env0 db1 cust1 (chunk_req (- 1) ''RUZH'' JUndefined))
     = Json 200 (chunk_reply (chunk_req (- 1) ''RUZH'' JUndefined) 3)
   \<and> ts_package_chunks (snd (handleUploadChunk env0 db1 cust1 (chunk_req (- 1) ''RUZH'' JUndefined)))
     = [\<lparr>queue_id = ''q1'', chunk_index = 0, chunk_data = ''QUJD''\<rparr>,
        \<lparr>queue_id = ''q1'', chunk_index = 1, chunk_data = ''RA''\<rparr>,
        \<lparr>queue_id = ''q1'', chunk_index = - 1, chunk_data = ''RUZH''\<rparr>]"
proof -
  let ?req = "chunk_req (- 1) ''RUZH'' JUndefined"
  have acc: "chunk_accepted env0 db1 cust1 ?req ''q1'' (- 1)"
    by (simp add: chunk_accepted_def chunk_req_def post_def env0_def db1_def db0_def cust1_def
        entry1_def owned_def announces_def pg_uuid_def pg_int4_def pg_text_def)
  have cs: "ts_package_chunks (chunk_writes env0 ?req ''q1'' (- 1) db1)
     = [\<lparr>queue_id = ''q1'', chunk_index = 0, chunk_data = ''QUJD''\<rparr>,
        \<lparr>queue_id = ''q1'', chunk_index = 1, chunk_data = ''RA''\<rparr>,
        \<lparr>queue_id = ''q1'', chunk_index = - 1, chunk_data = ''RUZH''\<rparr>]"
    by (simp add: chunks_chunk_writes chunk_req_def post_def env0_def db1_def db0_def pg_text_def)
  show ?thesis
    using handleUploadChunk_accepted[OF acc] by (simp add: cs chunks_of_def)
qed

text \<open>
  Claim C8, amended. Every \<open>upload-chunk\<close> request that results in a stored chunk
  (the relay answers 200) stores it under the \<open>chunk_index\<close> of the request as the
  database reads it into the INTEGER column, and changes the index of no other row: the
  indices stored afterwards are those stored before and this one. For a JSON number
  \<open>n\<close> the stored index is \<open>n\<close> itself, an integer of 32 bits, negative or not.
\<close>

theorem chunk_index_as_sent:
  assumes ok: "handleUploadChunk e d cust req = (Json 200 b, d')"
  shows "\<exists>q i. pg_uuid e (js_get (body req) ''queue_id'') = Some q
           \<and> pg_int4 e (js_get (body req) ''chunk_index'') = Some i
           \<and> \<lparr>queue_id = q, chunk_index = i,
               chunk_data = pg_text e (js_get (body req) ''chunk_data'')\<rparr>
                 \<in> set (ts_package_chunks d')
           \<and> set (map chunk_index (ts_package_chunks d'))
               = insert i (set (map chunk_index (ts_package_chunks d)))
           \<and> (\<forall>n. js_get (body req) ''chunk_index'' = JNum n
                 \<longrightarrow> i = n \<and> - 2147483648 \<le> n \<and> n \<le> 2147483647)"
proof -
  from handleUploadChunk_200[OF ok] obtain q i where acc: "chunk_accepted e d cust req q i"
    by blast
  from handleUploadChunk_accepted[OF acc] ok have d': "d' = chunk_writes e req q i d"
    by simp
  have q: "pg_uuid e (js_get (body req) ''queue_id'') = Some q"
    and i: "pg_int4 e (js_get (body req) ''chunk_index'') = Some i"
    using acc by (simp_all add: chunk_accepted_def)
  have num: "i = n \<and> - 2147483648 \<le> n \<and> n \<le> 2147483647"
    if "js_get (body req) ''chunk_index'' = JNum n" for n
    using i that by (simp add: pg_int4_def split: if_splits)
  show ?thesis
    using q i num
    by (auto simp: d' chunks_chunk_writes upsert_chunk_indices upsert_chunk_member
        simp del: set_map)
qed

theorem chunk_index_as_sent_witness:
  "handleUploadChunk env0 db1 cust1 (chunk_req (- 1) ''RUZH'' JUndefined)
     = (Json 200 (chunk_reply (chunk_req (- 1) ''RUZH'' JUndefined) 3),
        chunk_writes env0 (chunk_req (- 1) ''RUZH'' JUndefined) ''q1'' (- 1) db1)
   \<and> \<lparr>queue_id = ''q1'', chunk_index = - 1, chunk_data = ''RUZH''\<rparr>
        \<in> set (ts_package_chunks
                 (chunk_writes env0 (chunk_req (- 1) ''RUZH'' JUndefined) ''q1'' (- 1) db1))
   \<and> set (map chunk_index
            (ts_package_chunks
               (chunk_writes env0 (chunk_req (- 1) ''RUZH'' JUndefined) ''q1'' (- 1) db1)))
       = {- 1, 0, 1}"
proof -
  let ?req = "chunk_req (- 1) ''RUZH'' JUndefined"
  have acc: "chunk_accepted env0 db1 cust1 ?req ''q1'' (- 1)"
    by (simp add: chunk_accepted_def chunk_req_def post_def env0_def db1_def db0_def cust1_def
        entry1_def owned_def announces_def pg_uuid_def pg_int4_def pg_text_def)
  have n: "int (length (chunks_of ''q1''
             (ts_package_chunks (chunk_writes env0 ?req ''q1'' (- 1) db1)))) = 3"
    by (simp add: chunks_chunk_writes chunk_req_def post_def env0_def db1_def db0_def pg_text_def
        chunks_of_def)
  have ok: "handleUploadChunk env0 db1 cust1 ?req
     = (Json 200 (chunk_reply ?req 3), chunk_writes env0 ?req ''q1'' (- 1) db1)"
    using handleUploadChunk_accepted[OF acc] by (simp only: n)
  from chunk_index_as_sent[OF ok] obtain q i where
    q: "pg_uuid env0 (js_get (body ?req) ''queue_id'') = Some q" and
    i: "pg_int4 env0 (js_get (body ?req) ''chunk_index'') = Some i" and
    m: "\<lparr>queue_id = q, chunk_index = i,
               chunk_data = pg_text env0 (js_get (body ?req) ''chunk_data'')\<rparr>
                 \<in> set (ts_package_chunks (chunk_writes env0 ?req ''q1'' (- 1) db1))" and
    s: "set (map chunk_index (ts_package_chunks (chunk_writes env0 ?req ''q1'' (- 1) db1)))
               = insert i (set (map chunk_index (ts_package_chunks db1)))"
    by blast
  have qi: "q = ''q1''" "i = - 1"
    using q i by (simp_all add: chunk_req_def post_def env0_def pg_uuid_def pg_int4_def pg_text_def)
  have t: "pg_text env0 (js_get (body ?req) ''chunk_data'') = ''RUZH''"
    by (simp add: chunk_req_def post_def pg_text_def)
  have old: "set (map chunk_index (ts_package_chunks db1)) = {0, 1}"
    by (simp add: db1_def db0_def)
  show ?thesis
    using ok m s unfolding qi t old by simp
qed

section \<open>Authentication\<close>

lemma validateApiKey_None:
  assumes "\<forall>c \<in> set (ts_customers d).
             api_key_hash c = sha256_hex e k \<longrightarrow> subscription_status c \<notin> {''active'', ''trial''}"
  shows "validateApiKey e d k = None"
proof -
  have "filter (\<lambda>c. api_key_hash c = sha256_hex e k
                  \<and> subscription_status c \<in> set [''active'', ''trial'']) (ts_customers d) = []"
    using assms by (auto simp: filter_empty_conv)
  then show ?thesis
    by (simp add: validateApiKey_def)
qed

text \<open>
  Claim C10 says that every request to an action other than \<open>register\<close> and
  \<open>setup-chunks-table\<close> with the key of a customer who is neither \<open>active\<close> nor
  \<open>trial\<close> is answered 401. A request of method OPTIONS is answered 200 before the
  action and the key are looked at.
\<close>

theorem options_before_auth_counterexample:
  "cust2 \<in> set (ts_customers db0)
   \<and> api_key_hash cust2 = sha256_hex env0 ''key2''
   \<and> subscription_status cust2 = ''cancelled''
   \<and> handler other0 env0 db0
        \<lparr>req_method = ''OPTIONS'', query = JObj [(''action'', JStr ''upload'')],
         body = JUndefined, x_api_key = Some ''key2''\<rparr>
       = (End 200, db0)"
  by (simp add: handler_def db0_def cust2_def env0_def)

text \<open>
  Claim C10, amended. For every request to an action other than \<open>register\<close> and
  \<open>setup-chunks-table\<close> that presents a key \<open>k\<close>, where every customer row whose
  hash is that of \<open>k\<close> has a \<open>subscription_status\<close> that is neither \<open>active\<close> nor
  \<open>trial\<close>: the handler changes no state, whatever the method and the other routes
  are; and when the method is not OPTIONS and the key is not empty it answers 401 with
  \<open>Invalid API key\<close>, the same answer as with no customer at all.
\<close>

theorem inactive_key_rejected:
  assumes "js_or (js_get (query req) ''action'') (js_opt_get (body req) ''action'')
             \<notin> {JStr ''register'', JStr ''setup-chunks-table''}"
      and "x_api_key req = Some k"
      and "\<forall>c \<in> set (ts_customers d).
             api_key_hash c = sha256_hex e k \<longrightarrow> subscription_status c \<notin> {''active'', ''trial''}"
  shows "snd (handler other e d req) = d
         \<and> (req_method req \<noteq> ''OPTIONS'' \<and> k \<noteq> []
              \<longrightarrow> handler other e d req = (Json 401 (err ''Invalid API key''), d)
                  \<and> handler other e (d\<lparr>ts_customers := []\<rparr>) req
                      = (Json 401 (err ''Invalid API key''), d\<lparr>ts_customers := []\<rparr>))"
proof -
  have v: "validateApiKey e d k = None"
    by (rule validateApiKey_None[OF assms(3)])
  have v0: "validateApiKey e (d\<lparr>ts_customers := []\<rparr>) k = None"
    by (simp add: validateApiKey_def)
  show ?thesis
    using assms(1,2) v v0
    by (simp add: handler_def Let_def)
qed

theorem inactive_key_rejected_witness:
  "handler other0 env0 db0 (upload_req (JStr ''QUJD'')\<lparr>x_api_key := Some ''key2''\<rparr>)
     = (Json 401 (err ''Invalid API key''), db0)
   \<and> handler other0 env0 (db0\<lparr>ts_customers := []\<rparr>)
        (upload_req (JStr ''QUJD'')\<lparr>x_api_key := Some ''key2''\<rparr>)
     = (Json 401 (err ''Invalid API key''), db0\<lparr>ts_customers := []\<rparr>)"
proof -
  let ?req = "upload_req (JStr ''QUJD'')\<lparr>x_api_key := Some ''key2''\<rparr>"
  have a: "js_or (js_get (query ?req) ''action'') (js_opt_get (body ?req) ''action'')
             \<notin> {JStr ''register'', JStr ''setup-chunks-table''}"
    by (simp add: upload_req_def post_def js_or_def js_opt_get_def)
  have k: "x_api_key ?req = Some ''key2''"
    by simp
  have c: "\<forall>c \<in> set (ts_customers db0).
             api_key_hash c = sha256_hex env0 ''key2''
               \<longrightarrow> subscription_status c \<notin> {''active'', ''trial''}"
    by (simp add: db0_def cust1_def cust2_def env0_def)
  have m: "req_method ?req \<noteq> ''OPTIONS'' \<and> ''key2'' \<noteq> []"
    by (simp add: upload_req_def post_def)
  from inactive_key_rejected[OF a k c, of other0] m show ?thesis
    by blast
qed

section \<open>Sequences of operations\<close>

lemma kept_refl: "kept r r"
  by (simp add: kept_def)

lemma kept_trans: "kept a b \<Longrightarrow> kept b c \<Longrightarrow> kept a c"
  by (auto simp: kept_def)

lemma evolves_refl: "evolves qs qs"
  unfolding evolves_def
  by (rule exI[where x = "\<lambda>r. r"], rule exI[where x = "[]"]) (simp add: kept_refl)

lemma evolves_map:
  assumes "\<And>r. kept r (G r)"
  shows "evolves qs (map G qs)"
  unfolding evolves_def
  by (rule exI[where x = G], rule exI[where x = "[]"]) (simp add: assms)

lemma evolves_append:
  assumes "q_id x \<notin> set (map q_id qs)"
  shows "evolves qs (qs @ [x])"
  unfolding evolves_def
  by (rule exI[where x = "\<lambda>r. r"], rule exI[where x = "[x]"]) (use assms in \<open>simp add: kept_refl\<close>)

lemma evolves_trans:
  assumes "evolves a b" "evolves b c"
  shows "evolves a c"
proof -
  from assms(1) obtain G ex where
    b: "b = map G a @ ex" and G: "\<And>r. kept r (G r)" and
    ex: "\<And>x. x \<in> set ex \<Longrightarrow> q_id x \<notin> set (map q_id a)"
    unfolding evolves_def by blast
  from assms(2) obtain H ex' where
    c: "c = map H b @ ex'" and H: "\<And>r. kept r (H r)" and
    ex': "\<And>x. x \<in> set ex' \<Longrightarrow> q_id x \<notin> set (map q_id b)"
    unfolding evolves_def by blast
  have idG: "q_id (G r) = q_id r" for r using G[of r] by (simp add: kept_def)
  have idH: "q_id (H r) = q_id r" for r using H[of r] by (simp add: kept_def)
  have c': "c = map (\<lambda>r. H (G r)) a @ (map H ex @ ex')"
    by (simp add: c b)
  have k: "kept r (H (G r))" for r
    by (rule kept_trans[OF G H])
  have ids_b: "set (map q_id a) \<subseteq> set (map q_id b)"
    by (auto simp: b idG)
  have fresh: "q_id x \<notin> set (map q_id a)" if "x \<in> set (map H ex @ ex')" for x
  proof -
    from that consider y where "y \<in> set ex" "x = H y" | "x \<in> set ex'" by auto
    then show ?thesis
    proof cases
      case 1
      with ex[of y] show ?thesis by (simp add: idH)
    next
      case 2
      with ex'[of x] ids_b show ?thesis by blast
    qed
  qed
  show ?thesis
    unfolding evolves_def
    by (rule exI[where x = "\<lambda>r. H (G r)"], rule exI[where x = "map H ex @ ex'"])
       (use c' k fresh in blast)
qed

lemma queue_update_queue:
  "ts_sync_queue (update_queue q f d) = map (\<lambda>r. if q_id r = q then f r else r) (ts_sync_queue d)"
  by (simp add: update_queue_def)

lemma evolves_update_queue:
  assumes "\<And>r. kept r (f r)"
  shows "evolves (ts_sync_queue d) (ts_sync_queue (update_queue q f d))"
  unfolding queue_update_queue
  by (rule evolves_map) (simp add: assms kept_refl)

lemma handleUpload_evolves:
  "evolves (ts_sync_queue d) (ts_sync_queue (snd (handleUpload e d cust req)))"
  by (auto simp: handleUpload_def Let_def logAudit_def evolves_refl
      intro!: evolves_append split: option.splits)

lemma handleUploadComplete_evolves:
  "evolves (ts_sync_queue d) (ts_sync_queue (snd (handleUploadComplete e d cust req)))"
proof -
  have k: "kept r (r\<lparr>status := ''completed'', total_chunks := a, chunks_received := b,
                     package_size_bytes := c, processing_completed_at := t\<rparr>)" for r a b c t
    by (simp add: kept_def)
  have "evolves (ts_sync_queue d) (map (\<lambda>r. if q_id r = q then
           r\<lparr>status := ''completed'', total_chunks := a, chunks_received := b,
             package_size_bytes := c, processing_completed_at := t\<rparr> else r) (ts_sync_queue d))"
    for q a b c t
    by (rule evolves_map) (simp add: k kept_refl)
  then show ?thesis
    by (auto simp: handleUploadComplete_def Let_def logAudit_def update_queue_def evolves_refl
        split: option.splits list.splits)
qed

lemma chunk_writes_evolves:
  "evolves (ts_sync_queue d) (ts_sync_queue (chunk_writes e req q i d))"
proof -
  have k1: "kept r (r\<lparr>total_chunks := a, status := ''processing''\<rparr>)" for r a
    by (simp add: kept_def)
  have k2: "kept r (r\<lparr>chunks_received := a\<rparr>)" for r a
    by (simp add: kept_def)
  let ?d1 = "if announces req
             then update_queue q
                    (\<lambda>r. r\<lparr>total_chunks := pg_int4 e (js_get (body req) ''total_chunks''),
                           status := ''processing''\<rparr>) d
             else d"
  have 1: "evolves (ts_sync_queue d) (ts_sync_queue ?d1)"
    by (simp add: evolves_refl evolves_update_queue k1)
  have n: "ts_sync_queue (chunk_writes e req q i d)
              = map (\<lambda>r. if q_id r = q
                        then r\<lparr>chunks_received :=
                                 Some (int (length (chunks_of q
                                   (ts_package_chunks (chunk_writes e req q i d)))))\<rparr>
                        else r)
                  (ts_sync_queue ?d1)"
    by (simp add: chunk_writes_def Let_def update_queue_def)
  have 2: "evolves (ts_sync_queue ?d1) (ts_sync_queue (chunk_writes e req q i d))"
    unfolding n by (rule evolves_map) (simp add: k2 kept_refl)
  from 1 2 show ?thesis by (rule evolves_trans)
qed

lemma handleUploadChunk_evolves:
  "evolves (ts_sync_queue d) (ts_sync_queue (snd (handleUploadChunk e d cust req)))"
proof (cases "\<exists>b d'. handleUploadChunk e d cust req = (Json 200 b, d')")
  case True
  then obtain b d' where ok: "handleUploadChunk e d cust req = (Json 200 b, d')" by blast
  from handleUploadChunk_200[OF ok] obtain q i where acc: "chunk_accepted e d cust req q i"
    by blast
  show ?thesis
    by (simp add: handleUploadChunk_accepted[OF acc] chunk_writes_evolves)
next
  case False
  have k1: "kept r (r\<lparr>total_chunks := a, status := ''processing''\<rparr>)" for r a
    by (simp add: kept_def)
  from False show ?thesis
    by (auto simp: handleUploadChunk_def Let_def evolves_refl evolves_update_queue k1
        split: option.splits if_splits)
qed

lemma apply_step_evolves: "evolves (ts_sync_queue d) (ts_sync_queue (apply_step d s))"
proof -
  obtain o' e cust req where s: "s = (o', e, cust, req)"
    by (cases s) auto
  show ?thesis
    unfolding s
    by (cases o')
       (simp_all add: handleUpload_evolves handleUploadChunk_evolves handleUploadComplete_evolves)
qed

lemma run_evolves: "evolves (ts_sync_queue d) (ts_sync_queue (run d steps))"
proof (induction steps arbitrary: d)
  case Nil
  show ?case by (simp add: evolves_refl)
next
  case (Cons s steps)
  have "evolves (ts_sync_queue d) (ts_sync_queue (apply_step d s))"
    by (rule apply_step_evolves)
  moreover have "evolves (ts_sync_queue (apply_step d s)) (ts_sync_queue (run (apply_step d s) steps))"
    by (rule Cons.IH)
  ultimately show ?case
    by (simp add: evolves_trans)
qed

lemma evolves_existing:
  assumes "evolves qs qs'" "r' \<in> set qs'" "q_id r' \<in> set (map q_id qs)"
  shows "\<exists>r \<in> set qs. kept r r'"
proof -
  from assms(1) obtain G ex where
    b: "qs' = map G qs @ ex" and G: "\<And>r. kept r (G r)" and
    ex: "\<And>x. x \<in> set ex \<Longrightarrow> q_id x \<notin> set (map q_id qs)"
    unfolding evolves_def by blast
  from assms(2,3) ex have "r' \<in> set (map G qs)"
    unfolding b by auto
  then obtain r where "r \<in> set qs" "r' = G r" by auto
  with G[of r] show ?thesis by blast
qed

lemma eval_both_steps:
  "ts_sync_queue (run db0 both_steps)
     = [\<lparr>q_id = ''q1'', customer_id = ''c1'', sync_pair_id = ''p1'',
         direction = ''inbound'', manifest = JObj [(''name'', JStr ''demo'')],
         status = ''completed'', package_data = Some ''QUJD'', package_size_bytes = Some 4,
         total_chunks = Some 1, chunks_received = Some 1,
         created_at = 20, processing_completed_at = Some 20\<rparr>]"
  "ts_package_chunks (run db0 both_steps)
     = [\<lparr>queue_id = ''q1'', chunk_index = 1, chunk_data = ''RUZH''\<rparr>]"
  by (simp_all add: both_steps_def handleUpload_def handleUploadChunk_def handleUploadComplete_def
      Let_def upload_req_def chunk_req_def complete_req_def post_def pg_uuid_def pg_text_def
      pg_int8_def pg_int4_def logAudit_def update_queue_def owned_def chunks_of_def
      env0_def db0_def cust1_def)

text \<open>
  Claim C1 says that no completed entry ever has both inline data and chunks. No handler
  guards it: after an inline upload, a chunk uploaded to the new entry is stored, and the
  completion signal counts it. The entry is then \<open>completed\<close> with its inline data, a
  chunk row and \<open>total_chunks\<close> 1.
\<close>

theorem inline_and_chunks_counterexample:
  "exclusive db0
   \<and> map (\<lambda>r. (q_id r, status r, package_data r, total_chunks r)) (ts_sync_queue (run db0 both_steps))
       = [(''q1'', ''completed'', Some ''QUJD'', Some 1)]
   \<and> ts_package_chunks (run db0 both_steps)
       = [\<lparr>queue_id = ''q1'', chunk_index = 1, chunk_data = ''RUZH''\<rparr>]
   \<and> \<not> exclusive (run db0 both_steps)"
proof -
  have "exclusive db0"
    by (simp add: exclusive_def db0_def)
  moreover have "\<not> exclusive (run db0 both_steps)"
    unfolding exclusive_def eval_both_steps
    by (simp add: both_representations_def eval_both_steps chunks_of_def)
  ultimately show ?thesis
    by (simp add: eval_both_steps)
qed

text \<open>
  Claim C1, amended. Through every sequence of upload, upload-chunk and upload-complete
  operations, an entry that exists already keeps the \<open>package_data\<close> it has: upload only
  adds entries, under identifiers not in use, and the other two never write the column.
  So an entry without inline data never has both representations, whatever its status.
  (An entry with inline data keeps it as well, also when chunks are stored for it.)
\<close>

theorem inline_data_is_kept:
  assumes "r' \<in> set (ts_sync_queue (run d steps))"
      and "q_id r' \<in> set (map q_id (ts_sync_queue d))"
  shows "(\<exists>r \<in> set (ts_sync_queue d). q_id r = q_id r' \<and> package_data r' = package_data r)
         \<and> ((\<forall>r \<in> set (ts_sync_queue d). q_id r = q_id r' \<longrightarrow> package_data r = None)
              \<longrightarrow> package_data r' = None \<and> \<not> both_representations (run d steps) r')"
proof -
  from evolves_existing[OF run_evolves assms] obtain r where
    r: "r \<in> set (ts_sync_queue d)" "kept r r'" by blast
  then have "q_id r = q_id r'" "package_data r' = package_data r"
    by (simp_all add: kept_def)
  with r(1) show ?thesis
    by (auto simp: both_representations_def)
qed

lemma eval_chunk_steps:
  "ts_sync_queue (run db1 chunk_steps)
     = [entry1\<lparr>status := ''completed'', total_chunks := Some 3, chunks_received := Some 3,
               package_size_bytes := Some 10, processing_completed_at := Some 20\<rparr>]"
  "ts_package_chunks (run db1 chunk_steps)
     = [\<lparr>queue_id = ''q1'', chunk_index = 0, chunk_data = ''QUJD''\<rparr>,
        \<lparr>queue_id = ''q1'', chunk_index = 1, chunk_data = ''RA''\<rparr>,
        \<lparr>queue_id = ''q1'', chunk_index = 2, chunk_data = ''RUZH''\<rparr>]"
  by (simp_all add: chunk_steps_def handleUploadChunk_def handleUploadComplete_def
      Let_def chunk_req_def complete_req_def post_def pg_uuid_def pg_text_def
      pg_int4_def logAudit_def update_queue_def owned_def chunks_of_def
      env0_def db1_def db0_def cust1_def entry1_def)

theorem inline_data_is_kept_witness:
  "entry1\<lparr>status := ''completed'', total_chunks := Some 3, chunks_received := Some 3,
          package_size_bytes := Some 10, processing_completed_at := Some 20\<rparr>
     \<in> set (ts_sync_queue (run db1 chunk_steps))
   \<and> package_data
        (entry1\<lparr>status := ''completed'', total_chunks := Some 3, chunks_received := Some 3,
                package_size_bytes := Some 10, processing_completed_at := Some 20\<rparr>) = None
   \<and> \<not> both_representations (run db1 chunk_steps)
        (entry1\<lparr>status := ''completed'', total_chunks := Some 3, chunks_received := Some 3,
                package_size_bytes := Some 10, processing_completed_at := Some 20\<rparr>)"
proof -
  let ?r = "entry1\<lparr>status := ''completed'', total_chunks := Some 3, chunks_received := Some 3,
                   package_size_bytes := Some 10, processing_completed_at := Some 20\<rparr>"
  have m: "?r \<in> set (ts_sync_queue (run db1 chunk_steps))"
    by (simp add: eval_chunk_steps)
  have i: "q_id ?r \<in> set (map q_id (ts_sync_queue db1))"
    by (simp add: db1_def)
  have n: "\<forall>r \<in> set (ts_sync_queue db1). q_id r = q_id ?r \<longrightarrow> package_data r = None"
    by (simp add: db1_def entry1_def)
  from inline_data_is_kept[OF m i] n m show ?thesis
    by blast
qed

text \<open>
  Claim C5 says that no operation moves a status back, in particular not from
  \<open>completed\<close> to \<open>processing\<close>. \<open>handleUploadChunk\<close> sets \<open>processing\<close> whenever
  it receives chunk 0 with a truthy \<open>total_chunks\<close>, whatever the status is: after an
  inline upload the entry is \<open>completed\<close>, and after such a chunk it is \<open>processing\<close>.
\<close>

theorem completed_back_to_processing_counterexample:
  "map status (ts_sync_queue (run db0 [(Upload, env0, cust1, upload_req (JStr ''QUJD''))]))
     = [''completed'']
   \<and> regress_steps = [(Upload, env0, cust1, upload_req (JStr ''QUJD'')),
                      (UploadChunk, env0, cust1, chunk_req 0 ''RUZH'' (JNum 2))]
   \<and> map status (ts_sync_queue (run db0 regress_steps)) = [''processing'']"
  by (simp add: regress_steps_def handleUpload_def handleUploadChunk_def
      Let_def upload_req_def chunk_req_def post_def pg_uuid_def pg_text_def
      pg_int8_def pg_int4_def logAudit_def update_queue_def owned_def chunks_of_def
      env0_def db0_def cust1_def)

text \<open>
  Claim C5, amended. Through every sequence of upload, upload-chunk and upload-complete
  operations, the status of an entry that exists already is the one it had, or
  \<open>processing\<close> (set by upload-chunk with index 0 and a truthy \<open>total_chunks\<close>,
  whatever the status was), or \<open>completed\<close> (set by upload-complete). No operation
  moves an entry back to \<open>pending\<close>.
\<close>

theorem status_not_back_to_pending:
  assumes "r' \<in> set (ts_sync_queue (run d steps))"
      and "q_id r' \<in> set (map q_id (ts_sync_queue d))"
  shows "(\<exists>r \<in> set (ts_sync_queue d). q_id r = q_id r'
            \<and> (status r' = status r \<or> status r' = ''processing'' \<or> status r' = ''completed''))
         \<and> ((\<forall>r \<in> set (ts_sync_queue d). q_id r = q_id r' \<longrightarrow> status r \<noteq> ''pending'')
              \<longrightarrow> status r' \<noteq> ''pending'')"
proof -
  from evolves_existing[OF run_evolves assms] obtain r where
    r: "r \<in> set (ts_sync_queue d)" "kept r r'" by blast
  then have k: "q_id r = q_id r'"
    "status r' = status r \<or> status r' = ''processing'' \<or> status r' = ''completed''"
    by (simp_all add: kept_def)
  have "status r' \<noteq> ''pending''"
    if "\<forall>r \<in> set (ts_sync_queue d). q_id r = q_id r' \<longrightarrow> status r \<noteq> ''pending''"
    using that r(1) k by auto
  with r(1) k show ?thesis
    by blast
qed

theorem status_not_back_to_pending_witness:
  "entry1\<lparr>status := ''completed'', total_chunks := Some 3, chunks_received := Some 3,
          package_size_bytes := Some 10, processing_completed_at := Some 20\<rparr>
     \<in> set (ts_sync_queue (run db1 chunk_steps))
   \<and> status entry1 = ''processing''
   \<and> status
        (entry1\<lparr>status := ''completed'', total_chunks := Some 3, chunks_received := Some 3,
                package_size_bytes := Some 10, processing_completed_at := Some 20\<rparr>)
       \<noteq> ''pending''"
proof -
  let ?r = "entry1\<lparr>status := ''completed'', total_chunks := Some 3, chunks_received := Some 3,
                   package_size_bytes := Some 10, processing_completed_at := Some 20\<rparr>"
  have m: "?r \<in> set (ts_sync_queue (run db1 chunk_steps))"
    by (simp add: eval_chunk_steps)
  have i: "q_id ?r \<in> set (map q_id (ts_sync_queue db1))"
    by (simp add: db1_def)
  have n: "\<forall>r \<in> set (ts_sync_queue db1). q_id r = q_id ?r \<longrightarrow> status r \<noteq> ''pending''"
    by (simp add: db1_def entry1_def)
  have s: "status entry1 = ''processing''"
    by (simp add: entry1_def)
  from status_not_back_to_pending[OF m i] n m s show ?thesis
    by blast
qed

section \<open>The usage limit of the flow generation\<close>

lemma tier_limit_claimed:
  assumes "\<forall>t. tier = Some t \<longrightarrow> t \<notin> set object_prototype_names"
  shows "tier_limit tier = LNum (claimed_limit tier)"
proof (cases tier)
  case None
  then show ?thesis
    by (simp add: tier_limit_def claimed_limit_def limits_def object_prototype_names_def)
next
  case (Some t)
  with assms have t: "t \<notin> set object_prototype_names" by simp
  then have "t \<noteq> ''__proto__''"
    by (auto simp: object_prototype_names_def)
  with t Some show ?thesis
    by (simp add: tier_limit_def claimed_limit_def limits_def)
qed

text \<open>
  Claim C7 says that every request by an existing user who has reached the limit of the
  tier is answered 429. The handler checks the method and the prompt first: a request
  without a prompt, by a user of the free tier who has used 3 flows, is answered 400.
\<close>

theorem blank_prompt_counterexample:
  "user1 \<in> set (users app0)
   \<and> flows_generated_this_month user1 = Some 3
   \<and> claimed_limit (subscription_tier user1) = 3
   \<and> generate_flow_handler genv0 app0 (gen_req ''u1'' '''')
       = (Json 400 (err ''Prompt is required''), app0)"
  by (simp add: generate_flow_handler_def caught_def gen_req_def app0_def user1_def
      claimed_limit_def)

text \<open>
  Claim C7, amended. For every POST with a prompt that is a string and not blank (it is
  not empty, and \<open>String.prototype.trim\<close> leaves something of it), and a
  \<open>userId\<close> that is read as the id of an existing user, where the user's
  \<open>flows_generated_this_month\<close> is greater than or equal to the limit of the tier
  (free: 3, pro: 50, enterprise: 999999, and 3 for any other tier, NULL included), the
  handler answers 429 with the limit, the count and the tier, before it calls the LLM
  and before any write: the users, the flows, the usage log and the requests to the
  provider are as they were. The statement leaves out the tiers whose name is a property
  that every JavaScript object inherits (the twelve names of \<open>Object.prototype\<close>).
\<close>

theorem over_limit_rejected:
  assumes "req_method req = ''POST''"
      and "js_get (body req) ''prompt'' = JStr p"
      and "p \<noteq> []"
      and "js_trim g p \<noteq> []"
      and "truthy (js_get (body req) ''userId'')"
      and "g_uuid g (js_get (body req) ''userId'') = Some uid"
      and "filter (\<lambda>u. u_id u = uid) (users a) = user # others"
      and "\<forall>t. subscription_tier user = Some t \<longrightarrow>
                 t \<notin> set [''constructor'', ''__proto__'', ''hasOwnProperty'', ''isPrototypeOf'',
                         ''propertyIsEnumerable'', ''toLocaleString'', ''toString'',
                         ''valueOf'', ''__defineGetter__'', ''__defineSetter__'',
                         ''__lookupGetter__'', ''__lookupSetter__'']"
      and "flows_generated_this_month user = Some n"
      and "claimed_limit (subscription_tier user) \<le> n"
  shows "generate_flow_handler g a req
           = (Json 429
                (JObj [(''error'', JStr ''Usage limit exceeded''),
                       (''limit'', JNum (claimed_limit (subscription_tier user))),
                       (''used'', JNum n),
                       (''tier'', (case subscription_tier user of
                                    None \<Rightarrow> JNull | Some t \<Rightarrow> JStr t)),
                       (''upgradeRequired'', JBool True)]),
              a)"
proof -
  have nt: "\<forall>t. subscription_tier user = Some t \<longrightarrow> t \<notin> set object_prototype_names"
    using assms(8) by (simp add: object_prototype_names_def)
  have nn: "\<not> nullish (body req)"
    using assms(5) by (rule truthy_get_not_nullish)
  have l: "tier_limit (subscription_tier user) = LNum (claimed_limit (subscription_tier user))"
    by (rule tier_limit_claimed[OF nt])
  have ex: "exhausted (remaining_of (tier_limit (subscription_tier user))
                         (flows_generated_this_month user))"
    using assms(9,10) by (simp add: l exhausted_def remaining_of_def)
  show ?thesis
    using assms(1-7,9) nn ex
    by (simp add: generate_flow_handler_def caught_def Let_def l js_limit_def js_int_opt_def
        js_str_opt_def)
qed

theorem over_limit_rejected_witness:
  "generate_flow_handler genv0 app0 (gen_req ''u1'' ''Send an email'')
     = (Json 429
          (JObj [(''error'', JStr ''Usage limit exceeded''), (''limit'', JNum 3),
                 (''used'', JNum 3), (''tier'', JStr ''free''),
                 (''upgradeRequired'', JBool True)]),
        app0)
   \<and> generate_flow_handler genv0 app1 (gen_req ''u3'' ''Send an email'')
     = (Json 429
          (JObj [(''error'', JStr ''Usage limit exceeded''), (''limit'', JNum 50),
                 (''used'', JNum 50), (''tier'', JStr ''pro''),
                 (''upgradeRequired'', JBool True)]),
        app1)
   \<and> generate_flow_handler genv0 app1 (gen_req ''u4'' ''Send an email'')
     = (Json 429
          (JObj [(''error'', JStr ''Usage limit exceeded''), (''limit'', JNum 3),
                 (''used'', JNum 4), (''tier'', JNull),
                 (''upgradeRequired'', JBool True)]),
        app1)"
proof -
  have h1: "req_method (gen_req uid ''Send an email'') = ''POST''"
    and h2: "js_get (body (gen_req uid ''Send an email'')) ''prompt'' = JStr ''Send an email''"
    and h5: "g_uuid genv0 (js_get (body (gen_req uid ''Send an email'')) ''userId'') = Some uid"
    for uid
    by (simp_all add: gen_req_def g_uuid_def genv0_def)
  have h4: "truthy (js_get (body (gen_req (c # cs) ''Send an email'')) ''userId'')" for c cs
    by (simp add: gen_req_def)
  have h3: "''Send an email'' \<noteq> []"
    by simp
  have h3': "js_trim genv0 ''Send an email'' \<noteq> []"
    by (simp add: genv0_def trim_ascii_def ascii_space_def)
  have h6: "filter (\<lambda>u. u_id u = ''u1'') (users app0) = user1 # []"
           "filter (\<lambda>u. u_id u = ''u3'') (users app1) = user3 # []"
           "filter (\<lambda>u. u_id u = ''u4'') (users app1) = user4 # []"
    by (simp_all add: app0_def app1_def user1_def user2_def user3_def user4_def)
  have h7: "\<forall>t. subscription_tier u = Some t \<longrightarrow>
                 t \<notin> set [''constructor'', ''__proto__'', ''hasOwnProperty'', ''isPrototypeOf'',
                         ''propertyIsEnumerable'', ''toLocaleString'', ''toString'',
                         ''valueOf'', ''__defineGetter__'', ''__defineSetter__'',
                         ''__lookupGetter__'', ''__lookupSetter__'']"
    if "u \<in> {user1, user3, user4}" for u
    using that by (auto simp: user1_def user3_def user4_def)
  have h8: "flows_generated_this_month user1 = Some 3"
           "flows_generated_this_month user3 = Some 50"
           "flows_generated_this_month user4 = Some 4"
    by (simp_all add: user1_def user3_def user4_def)
  have h9: "claimed_limit (subscription_tier user1) \<le> 3"
           "claimed_limit (subscription_tier user3) \<le> 50"
           "claimed_limit (subscription_tier user4) \<le> 4"
    by (simp_all add: user1_def user3_def user4_def claimed_limit_def)
  have r1: "generate_flow_handler genv0 app0 (gen_req ''u1'' ''Send an email'')
     = (Json 429
          (JObj [(''error'', JStr ''Usage limit exceeded''), (''limit'', JNum 3),
                 (''used'', JNum 3), (''tier'', JStr ''free''),
                 (''upgradeRequired'', JBool True)]),
        app0)"
    using over_limit_rejected[OF h1 h2 h3 h3' h4 h5 h6(1) h7 h8(1) h9(1)]
    by (simp add: user1_def claimed_limit_def)
  have r3: "generate_flow_handler genv0 app1 (gen_req ''u3'' ''Send an email'')
     = (Json 429
          (JObj [(''error'', JStr ''Usage limit exceeded''), (''limit'', JNum 50),
                 (''used'', JNum 50), (''tier'', JStr ''pro''),
                 (''upgradeRequired'', JBool True)]),
        app1)"
    using over_limit_rejected[OF h1 h2 h3 h3' h4 h5 h6(2) h7 h8(2) h9(2)]
    by (simp add: user3_def claimed_limit_def)
  have r4: "generate_flow_handler genv0 app1 (gen_req ''u4'' ''Send an email'')
     = (Json 429
          (JObj [(''error'', JStr ''Usage limit exceeded''), (''limit'', JNum 3),
                 (''used'', JNum 4), (''tier'', JNull),
                 (''upgradeRequired'', JBool True)]),
        app1)"
    using over_limit_rejected[OF h1 h2 h3 h3' h4 h5 h6(3) h7 h8(3) h9(3)]
    by (simp add: user4_def claimed_limit_def)
  from r1 r3 r4 show ?thesis
    by simp
qed

lemma cleanJson_braces: "cleanJson genv0 ''{}'' = ''{}''"
  by (simp add: cleanJson_def genv0_def trim_ascii_def ascii_space_def startsWith_def fence_def
      eval_nat_numeral)

lemma genv0_fields:
  "g_uuidin genv0 = Some"
  "ANTHROPIC_API_KEY genv0 = Some ''sk-test''"
  "fetch genv0 p n
     = Ok (JObj [(''content'', JArr [JObj [(''type'', JStr ''text''), (''text'', JStr ''{}'')]])])"
  "json_parse genv0 ''{}'' = Some (JObj [])"
  "js_trim genv0 ''Send an email'' = ''Send an email''"
  "generationTime genv0 = JNum 1"
  "new_flow_id genv0 = ''f1''"
  by (simp_all add: genv0_def trim_ascii_def ascii_space_def)

text \<open>
  For those names \<open>limits[tier]\<close> is truthy and not a number, \<open>remaining\<close> is NaN and
  \<open>remaining <= 0\<close> is false: a user whose tier is \<open>constructor\<close> and who has used 3
  flows is not rejected; the provider is called, a flow is stored and the count becomes 4.
\<close>

lemma inherited_tier_not_limited:
  "user2 \<in> set (users app0)
   \<and> flows_generated_this_month user2 = Some 3
   \<and> claimed_limit (subscription_tier user2) = 3
   \<and> (\<exists>b. fst (generate_flow_handler genv0 app0 (gen_req ''u2'' ''Send an email'')) = Json 200 b)
   \<and> llm_requests (snd (generate_flow_handler genv0 app0 (gen_req ''u2'' ''Send an email'')))
       = [(''Send an email'', JUndefined)]
   \<and> map flows_generated_this_month
        (users (snd (generate_flow_handler genv0 app0 (gen_req ''u2'' ''Send an email''))))
       = [Some 3, Some 4]
   \<and> length (flows (snd (generate_flow_handler genv0 app0 (gen_req ''u2'' ''Send an email'')))) = 1"
  by (simp add: generate_flow_handler_def generate_def caught_def Let_def gen_req_def
      g_uuid_def genv0_fields app0_def user1_def user2_def claimed_limit_def
      tier_limit_def limits_def object_prototype_names_def remaining_of_def exhausted_def
      content_text_def cleanJson_braces jsonb_in_def js_or_def)

end
